theory Spec2Isabelle
  imports Main
begin

section \<open>JavaScript values used by the Minio adapter\<close>

text \<open>
  The adapter (\<^verbatim>\<open>api/server/services/Files/Minio/crud.js\<close>) works on strings, on numbers
  that are millisecond instants or second counts, and on \<^verbatim>\<open>Date\<close> objects. Numbers are
  modelled as exact integers together with \<^verbatim>\<open>NaN\<close>, which is what \<^verbatim>\<open>parseInt\<close> and an invalid
  \<^verbatim>\<open>Date\<close> give; every comparison with \<^verbatim>\<open>NaN\<close> is false, as in JavaScript. Strings are
  \<^typ>\<open>string\<close>; \<^verbatim>\<open>undefined\<close> and \<^verbatim>\<open>null\<close> are \<^term>\<open>None\<close>.
\<close>

datatype jsnum = NaN | Num int

fun js_add :: "jsnum \<Rightarrow> jsnum \<Rightarrow> jsnum" where
  "js_add (Num a) (Num b) = Num (a + b)"
| "js_add _ _ = NaN"

fun js_sub :: "jsnum \<Rightarrow> jsnum \<Rightarrow> jsnum" where
  "js_sub (Num a) (Num b) = Num (a - b)"
| "js_sub _ _ = NaN"

fun js_mul :: "jsnum \<Rightarrow> jsnum \<Rightarrow> jsnum" where
  "js_mul (Num a) (Num b) = Num (a * b)"
| "js_mul _ _ = NaN"

fun js_le :: "jsnum \<Rightarrow> jsnum \<Rightarrow> bool" where
  "js_le (Num a) (Num b) = (a \<le> b)"
| "js_le _ _ = False"

fun js_ge :: "jsnum \<Rightarrow> jsnum \<Rightarrow> bool" where
  "js_ge (Num a) (Num b) = (a \<ge> b)"
| "js_ge _ _ = False"

text \<open>
  \<^verbatim>\<open>new Date(n)\<close> keeps the time value \<^verbatim>\<open>n\<close> only inside the range of \<^verbatim>\<open>Date\<close>
  (8.64e15 ms either side of the epoch); outside it, and for \<^verbatim>\<open>NaN\<close>, the date is invalid
  and its time value is \<^verbatim>\<open>NaN\<close>.
\<close>

definition maxTime :: int where
  "maxTime = 8640000000000000"

fun newDate :: "jsnum \<Rightarrow> jsnum" where
  "newDate NaN = NaN"
| "newDate (Num n) = (if \<bar>n\<bar> \<le> maxTime then Num n else NaN)"

text \<open>An error object: its \<^verbatim>\<open>name\<close>, its \<^verbatim>\<open>code\<close> when it has one, its \<^verbatim>\<open>message\<close>.\<close>

datatype js_error = JsError (err_name: string) (err_code: "string option") (err_message: string)

definition Error :: "string \<Rightarrow> js_error" where
  "Error msg = JsError ''Error'' None msg"

definition TypeError :: "string \<Rightarrow> js_error" where
  "TypeError msg = JsError ''TypeError'' None msg"

subsection \<open>String methods\<close>

text \<open>\<^verbatim>\<open>s.split(c)\<close> for a one-character separator: never empty, \<^verbatim>\<open>''.split('/')\<close> is \<^verbatim>\<open>['']\<close>.\<close>

fun js_split :: "char \<Rightarrow> string \<Rightarrow> string list" where
  "js_split c [] = [[]]"
| "js_split c (x # xs) =
     (if x = c then [] # js_split c xs
      else (case js_split c xs of [] \<Rightarrow> [[x]] | p # ps \<Rightarrow> (x # p) # ps))"

text \<open>\<^verbatim>\<open>parts.join(sep)\<close>.\<close>

fun js_join :: "string \<Rightarrow> string list \<Rightarrow> string" where
  "js_join sep [] = []"
| "js_join sep [p] = p"
| "js_join sep (p # q # ps) = p @ sep @ js_join sep (q # ps)"

definition startsWith :: "string \<Rightarrow> string \<Rightarrow> bool" where
  "startsWith s p = (take (length p) s = p)"

text \<open>\<^verbatim>\<open>s.includes(t)\<close>: \<^verbatim>\<open>t\<close> occurs in \<^verbatim>\<open>s\<close> at some position.\<close>

fun js_includes :: "string \<Rightarrow> string \<Rightarrow> bool" where
  "js_includes [] t = (t = [])"
| "js_includes (x # xs) t = (startsWith (x # xs) t \<or> js_includes xs t)"

text \<open>\<^verbatim>\<open>s.substring(a, b)\<close> for \<^verbatim>\<open>a \<le> b\<close> (all uses in the adapter), and \<^verbatim>\<open>s.substring(a)\<close>.\<close>

definition substring :: "string \<Rightarrow> nat \<Rightarrow> nat \<Rightarrow> string" where
  "substring s a b = take (b - a) (drop a s)"

definition substringFrom :: "string \<Rightarrow> nat \<Rightarrow> string" where
  "substringFrom s a = drop a s"

section \<open>The platform the adapter runs on\<close>

text \<open>
  \<^verbatim>\<open>new URL(s)\<close>, \<^verbatim>\<open>new Date(s)\<close>, \<^verbatim>\<open>parseInt\<close>, the process environment and the
  \<^verbatim>\<open>FileSources\<close> table of \<^verbatim>\<open>librechat-data-provider\<close> are not code of the repository:
  they are parameters of the model. Of a parsed URL the adapter reads the path and the
  query parameters (in order; \<^verbatim>\<open>get\<close> returns the first value of a name).
\<close>

record url =
  pathname :: string
  searchParams :: "(string \<times> string) list"

definition searchParams_has :: "url \<Rightarrow> string \<Rightarrow> bool" where
  "searchParams_has u n = (map_of (searchParams u) n \<noteq> None)"

definition searchParams_get :: "url \<Rightarrow> string \<Rightarrow> string option" where
  "searchParams_get u n = map_of (searchParams u) n"

record platform =
  new_URL :: "string \<Rightarrow> url option"  \<comment> \<open>\<^verbatim>\<open>new URL(s)\<close>; \<^term>\<open>None\<close> when it throws\<close>
  dateParse :: "string \<Rightarrow> jsnum"  \<comment> \<open>\<^verbatim>\<open>new Date(s).getTime()\<close>\<close>
  jsParseInt :: "string \<Rightarrow> nat option \<Rightarrow> jsnum"  \<comment> \<open>\<^verbatim>\<open>parseInt(s, radix)\<close>\<close>
  path_basename :: "string \<Rightarrow> string"  \<comment> \<open>\<^verbatim>\<open>path.basename(p)\<close>\<close>
  FileSources_client :: string
  MINIO_BUCKET_NAME :: "string option"
  MINIO_URL_EXPIRY_SECONDS :: "string option"
  MINIO_REFRESH_EXPIRY_MS :: "string option"
  MINIO_REGION :: "string option"
  MINIO_ENDPOINT :: "string option"
  MINIO_ACCESS_KEY :: "string option"
  MINIO_SECRET_KEY :: "string option"

text \<open>A string or \<^verbatim>\<open>undefined\<close> is falsy when it is missing or empty.\<close>

fun falsy :: "string option \<Rightarrow> bool" where
  "falsy None = True"
| "falsy (Some s) = (s = [])"

section \<open>Module configuration (crud.js, lines 15 to 44)\<close>

definition bucketName :: "platform \<Rightarrow> string" where
  "bucketName P = (if falsy (MINIO_BUCKET_NAME P) then ''q-hub'' else the (MINIO_BUCKET_NAME P))"

definition defaultBasePath :: string where
  "defaultBasePath = ''images''"

definition minioUrlExpirySeconds :: "platform \<Rightarrow> int" where
  "minioUrlExpirySeconds P =
     (case MINIO_URL_EXPIRY_SECONDS P of
        None \<Rightarrow> 7 * 24 * 60 * 60
      | Some v \<Rightarrow>
          (case jsParseInt P v (Some 10) of
             NaN \<Rightarrow> 7 * 24 * 60 * 60
           | Num parsed \<Rightarrow> if parsed > 0 then min parsed (7 * 24 * 60 * 60) else 7 * 24 * 60 * 60))"

text \<open>\<^verbatim>\<open>minioRefreshExpiryMs\<close>: \<^verbatim>\<open>null\<close> unless the variable holds a positive integer.\<close>

definition minioRefreshExpiryMs :: "platform \<Rightarrow> int option" where
  "minioRefreshExpiryMs P =
     (if falsy (MINIO_REFRESH_EXPIRY_MS P) then None
      else (case jsParseInt P (the (MINIO_REFRESH_EXPIRY_MS P)) (Some 10) of
              NaN \<Rightarrow> None
            | Num parsed \<Rightarrow> if parsed > 0 then Some parsed else None))"

section \<open>Key codec\<close>

definition getMinioKey :: "string \<Rightarrow> string \<Rightarrow> string \<Rightarrow> string" where
  "getMinioKey basePath userId fileName = basePath @ ''/'' @ userId @ ''/'' @ fileName"

text \<open>
  \<^verbatim>\<open>extractKeyFromMinioUrl\<close>: throws on a missing or empty input; the path of an absolute
  URL without its leading separator; otherwise the string itself, a leading separator
  stripped.
\<close>

definition extractKeyFromMinioUrl :: "platform \<Rightarrow> string option \<Rightarrow> js_error + string" where
  "extractKeyFromMinioUrl P fileUrlOrKey =
     (if falsy fileUrlOrKey then Inl (Error ''Invalid input: URL or key is empty'')
      else
        (let s = the fileUrlOrKey in
         case new_URL P s of
           Some u \<Rightarrow> Inr (substringFrom (pathname u) 1)
         | None \<Rightarrow>
             (let parts = js_split CHR ''/'' s in
              if length parts \<ge> 3 \<and> \<not> startsWith s ''http'' \<and> \<not> startsWith s ''/''
              then Inr s
              else Inr (if startsWith s ''/'' then substringFrom s 1 else s))))"

text \<open>
  The splitting of a key into \<^verbatim>\<open>basePath\<close>, \<^verbatim>\<open>userId\<close> and \<^verbatim>\<open>fileName\<close>, written twice in the
  source (\<^verbatim>\<open>getNewMinioURL\<close>, lines 339 to 346, and \<^verbatim>\<open>refreshMinioUrl\<close>, lines 433 to 441):
  nothing (\<^term>\<open>None\<close>) when the key has fewer than three segments.
\<close>

definition keyParts :: "string \<Rightarrow> (string \<times> string \<times> string) option" where
  "keyParts minioKey =
     (let parts = js_split CHR ''/'' minioKey in
      if length parts < 3 then None
      else Some (parts ! 0, parts ! 1, js_join ''/'' (drop 2 parts)))"

section \<open>Signed-URL expiry\<close>

text \<open>The ISO string built from the \<^verbatim>\<open>X-Amz-Date\<close> parameter (lines 298 to 305).\<close>

definition amzDateIso :: "string \<Rightarrow> string" where
  "amzDateIso dateParam =
     (let year = substring dateParam 0 4;
          month = substring dateParam 4 6;
          day = substring dateParam 6 8;
          hour = substring dateParam 9 11;
          minute = substring dateParam 11 13;
          second = substring dateParam 13 15
      in year @ ''-'' @ month @ ''-'' @ day @ ''T'' @ hour @ '':'' @ minute @ '':'' @ second @ ''Z'')"

text \<open>
  \<^verbatim>\<open>needsRefresh(signedUrl, bufferSeconds)\<close>, with the reading \<open>now\<close> of the clock
  (\<^verbatim>\<open>new Date().getTime()\<close>) as an argument. Only \<^verbatim>\<open>new URL\<close> can throw inside the
  \<^verbatim>\<open>try\<close>; the \<^verbatim>\<open>catch\<close> returns \<^verbatim>\<open>true\<close>.
\<close>

definition needsRefresh :: "platform \<Rightarrow> int \<Rightarrow> string \<Rightarrow> int \<Rightarrow> bool" where
  "needsRefresh P now signedUrl bufferSeconds =
     (case new_URL P signedUrl of
        None \<Rightarrow> True
      | Some u \<Rightarrow>
          if \<not> searchParams_has u ''X-Amz-Signature'' then False
          else
            (let expiresParam = searchParams_get u ''X-Amz-Expires'';
                 dateParam = searchParams_get u ''X-Amz-Date''
             in if falsy expiresParam \<or> falsy dateParam then True
                else
                  (let dateObj = dateParse P (amzDateIso (the dateParam));
                       expiresAtDate =
                         newDate (js_add dateObj (js_mul (jsParseInt P (the expiresParam) None) (Num 1000)))
                   in case minioRefreshExpiryMs P of
                        Some maxAge \<Rightarrow>
                          (let urlCreationTime = dateObj;
                               urlAge = js_sub (Num now) urlCreationTime
                           in js_ge urlAge (Num maxAge))
                      | None \<Rightarrow>
                          (let bufferTime = newDate (Num (now + bufferSeconds * 1000))
                           in js_le expiresAtDate bufferTime))))"

section \<open>The object store, the signer and the local file system\<close>

text \<open>
  The S3 client, the presigner, the clock, the local file system and the caller's
  persistence callback act on the world outside the process, of an arbitrary type \<open>'x\<close>:
  each takes the world and returns its result, an error (\<^term>\<open>Inl\<close>) when it throws or
  rejects, with the world after. Beside the world the model keeps the log of what was asked
  of the collaborators: the commands sent to the store, the calls of the persistence
  callback and the unlinks asked of the file system. The logger's output is not modelled.
\<close>

datatype body = Buffer string | ReadStream string

datatype command =
    PutObjectCommand string string body
  | GetObjectCommand string string
  | HeadObjectCommand string string
  | DeleteObjectCommand string string

datatype s3client =
  S3Client (region: string) (endpoint: string) (credentials: "(string \<times> string) option")

record file_update =
  upd_file_id :: string
  upd_filepath :: string

datatype event = Sent command | Persisted "file_update list" | Unlinked string

type_synonym 'x state = "'x \<times> event list"

type_synonym ('a, 'x) eff = "'x state \<Rightarrow> (js_error + 'a) \<times> 'x state"

record 'x services =
  getTime :: "'x \<Rightarrow> int"  \<comment> \<open>\<^verbatim>\<open>new Date().getTime()\<close>\<close>
  send :: "s3client \<Rightarrow> command \<Rightarrow> 'x \<Rightarrow> (js_error + unit) \<times> 'x"  \<comment> \<open>\<^verbatim>\<open>client.send(cmd)\<close>\<close>
  getSignedUrl :: "s3client option \<Rightarrow> command \<Rightarrow> int \<Rightarrow> 'x \<Rightarrow> (js_error + string) \<times> 'x"
  stat :: "string \<Rightarrow> 'x \<Rightarrow> js_error + nat"  \<comment> \<open>\<^verbatim>\<open>(await fs.promises.stat(p)).size\<close>\<close>
  unlink :: "string \<Rightarrow> 'x \<Rightarrow> (js_error + unit) \<times> 'x"  \<comment> \<open>\<^verbatim>\<open>fs.promises.unlink(p)\<close>\<close>

text \<open>
  \<^verbatim>\<open>initializeMinio\<close> (initialize.js): \<^verbatim>\<open>null\<close> without a region or an endpoint, else the
  client for them, with the static credentials when both are given. The handle is cached
  by the module; the environment being fixed, the model builds it anew at each call.
\<close>

definition initializeMinio :: "platform \<Rightarrow> s3client option" where
  "initializeMinio P =
     (if falsy (MINIO_REGION P) \<or> falsy (MINIO_ENDPOINT P) then None
      else if \<not> falsy (MINIO_ACCESS_KEY P) \<and> \<not> falsy (MINIO_SECRET_KEY P)
      then Some (S3Client (the (MINIO_REGION P)) (the (MINIO_ENDPOINT P))
                   (Some (the (MINIO_ACCESS_KEY P), the (MINIO_SECRET_KEY P))))
      else Some (S3Client (the (MINIO_REGION P)) (the (MINIO_ENDPOINT P)) None))"

text \<open>\<^verbatim>\<open>client.send(cmd)\<close> on the handle: a \<^verbatim>\<open>TypeError\<close>, nothing sent, when it is \<^verbatim>\<open>null\<close>.\<close>

definition client_send :: "'x services \<Rightarrow> s3client option \<Rightarrow> command \<Rightarrow> (unit, 'x) eff" where
  "client_send V client cmd = (\<lambda>(x, log).
     case client of
       None \<Rightarrow> (Inl (TypeError ''Cannot read properties of null''), (x, log))
     | Some c \<Rightarrow> (case send V c cmd x of (r, x') \<Rightarrow> (r, (x', log @ [Sent cmd]))))"

text \<open>\<^verbatim>\<open>getMinioURL({ userId, fileName, bucket, basePath })\<close>: logs and rethrows.\<close>

definition getMinioURL ::
  "platform \<Rightarrow> 'x services \<Rightarrow> string \<Rightarrow> string \<Rightarrow> string \<Rightarrow> string \<Rightarrow> (string, 'x) eff" where
  "getMinioURL P V userId fileName bucket basePath = (\<lambda>(x, log).
     let key = getMinioKey basePath userId fileName;
         client = initializeMinio P
     in case getSignedUrl V client (GetObjectCommand bucket key) (minioUrlExpirySeconds P) x of
          (r, x') \<Rightarrow> (r, (x', log)))"

subsection \<open>Records of the host application\<close>

record mongo_file =
  file_id :: "string option"
  filepath :: "string option"
  source :: "string option"

record multer_file =
  path :: string

record upload_result =
  res_filepath :: string
  res_bytes :: nat

subsection \<open>Delete\<close>

text \<open>Lines 151 to 164: the delete command, then the probe that only logs.\<close>

definition deleteAndVerify :: "platform \<Rightarrow> 'x services \<Rightarrow> string \<Rightarrow> (unit, 'x) eff" where
  "deleteAndVerify P V key = (\<lambda>s1.
     let client = initializeMinio P in
     case client_send V client (DeleteObjectCommand (bucketName P) key) s1 of
       (Inl e, s2) \<Rightarrow> (Inl e, s2)
     | (Inr deleteResult, s2) \<Rightarrow>
         (case client_send V client (HeadObjectCommand (bucketName P) key) s2 of
            (verify, s3) \<Rightarrow> (Inr (), s3)))"

text \<open>Lines 138 to 164, the body of the outer \<^verbatim>\<open>try\<close>.\<close>

definition deleteTry :: "platform \<Rightarrow> 'x services \<Rightarrow> string \<Rightarrow> (unit, 'x) eff" where
  "deleteTry P V key = (\<lambda>s0.
     let client = initializeMinio P in
     case client_send V client (HeadObjectCommand (bucketName P) key) s0 of
       (Inl headErr, s1) \<Rightarrow>
         if err_name headErr = ''NotFound'' then (Inr (), s1)
         else deleteAndVerify P V key s1
     | (Inr found, s1) \<Rightarrow> deleteAndVerify P V key s1)"

definition mismatchMessage :: "string \<Rightarrow> string \<Rightarrow> string" where
  "mismatchMessage userId key = ''[deleteFileFromMinio] User ID mismatch: '' @ userId @ '' vs '' @ key"

text \<open>\<^verbatim>\<open>deleteFileFromMinio(req, file)\<close>; \<open>userId\<close> is \<^verbatim>\<open>req.user.id\<close>.\<close>

definition deleteFileFromMinio ::
  "platform \<Rightarrow> 'x services \<Rightarrow> string \<Rightarrow> mongo_file \<Rightarrow> (unit, 'x) eff" where
  "deleteFileFromMinio P V userId file = (\<lambda>s0.
     case extractKeyFromMinioUrl P (filepath file) of
       Inl e \<Rightarrow> (Inl e, s0)
     | Inr key \<Rightarrow>
         if \<not> js_includes key userId then (Inl (Error (mismatchMessage userId key)), s0)
         else
           (case deleteTry P V key s0 of
              (Inl error, s1) \<Rightarrow>
                if err_code error = Some ''NoSuchKey'' then (Inr (), s1) else (Inl error, s1)
            | (Inr done, s1) \<Rightarrow> (Inr (), s1)))"

subsection \<open>Upload of a local file\<close>

text \<open>Lines 189 to 207, the body of the \<^verbatim>\<open>try\<close>.\<close>

definition uploadTry ::
  "platform \<Rightarrow> 'x services \<Rightarrow> string \<Rightarrow> multer_file option \<Rightarrow> string \<Rightarrow> string \<Rightarrow> string \<Rightarrow>
   (upload_result, 'x) eff" where
  "uploadTry P V userId file fileId bucket basePath = (\<lambda>s0.
     case file of
       None \<Rightarrow> (Inl (TypeError ''Cannot read properties of undefined''), s0)
     | Some f \<Rightarrow>
         (let inputFilePath = path f;
              fileName = fileId @ ''__'' @ path_basename P inputFilePath;
              key = getMinioKey basePath userId fileName
          in case stat V inputFilePath (fst s0) of
               Inl e \<Rightarrow> (Inl e, s0)
             | Inr bytes \<Rightarrow>
                 (case client_send V (initializeMinio P)
                         (PutObjectCommand bucket key (ReadStream inputFilePath)) s0 of
                    (Inl e, s1) \<Rightarrow> (Inl e, s1)
                  | (Inr put, s1) \<Rightarrow>
                      (case getMinioURL P V userId fileName bucket basePath s1 of
                         (Inl e, s2) \<Rightarrow> (Inl e, s2)
                       | (Inr fileURL, s2) \<Rightarrow>
                           (Inr \<lparr>res_filepath = fileURL, res_bytes = bytes\<rparr>, s2)))))"

text \<open>
  \<^verbatim>\<open>uploadFileToMinio({ req, file, file_id, bucket, basePath })\<close>: the \<^verbatim>\<open>catch\<close> unlinks
  \<^verbatim>\<open>file.path\<close> when there is one, ignores whatever error the unlink gives, and rethrows.
\<close>

definition uploadFileToMinio ::
  "platform \<Rightarrow> 'x services \<Rightarrow> string \<Rightarrow> multer_file option \<Rightarrow> string \<Rightarrow> string \<Rightarrow> string \<Rightarrow>
   (upload_result, 'x) eff" where
  "uploadFileToMinio P V userId file fileId bucket basePath = (\<lambda>s0.
     case uploadTry P V userId file fileId bucket basePath s0 of
       (Inr result, s1) \<Rightarrow> (Inr result, s1)
     | (Inl error, (x1, log1)) \<Rightarrow>
         (case file of
            None \<Rightarrow> (Inl error, (x1, log1))
          | Some f \<Rightarrow>
              if path f = [] then (Inl error, (x1, log1))
              else (case unlink V (path f) x1 of
                      (unlinked, x2) \<Rightarrow> (Inl error, (x2, log1 @ [Unlinked (path f)])))))"

subsection \<open>Refresh\<close>

text \<open>
  \<^verbatim>\<open>getNewMinioURL(currentURL)\<close>: \<^verbatim>\<open>undefined\<close> (\<^term>\<open>None\<close>) for an empty key, for a key of
  fewer than three segments, and, from the \<^verbatim>\<open>catch\<close>, for any error.
\<close>

definition getNewMinioURLTry ::
  "platform \<Rightarrow> 'x services \<Rightarrow> string option \<Rightarrow> (string option, 'x) eff" where
  "getNewMinioURLTry P V currentURL = (\<lambda>s0.
     case extractKeyFromMinioUrl P currentURL of
       Inl e \<Rightarrow> (Inl e, s0)
     | Inr minioKey \<Rightarrow>
         if minioKey = [] then (Inr None, s0)
         else
           (case keyParts minioKey of
              None \<Rightarrow> (Inr None, s0)
            | Some (basePath, userId, fileName) \<Rightarrow>
                (case getMinioURL P V userId fileName (bucketName P) basePath s0 of
                   (Inl e, s1) \<Rightarrow> (Inl e, s1)
                 | (Inr u, s1) \<Rightarrow> (Inr (Some u), s1))))"

definition getNewMinioURL ::
  "platform \<Rightarrow> 'x services \<Rightarrow> string option \<Rightarrow> (string option, 'x) eff" where
  "getNewMinioURL P V currentURL = (\<lambda>s0.
     case getNewMinioURLTry P V currentURL s0 of
       (Inl error, s1) \<Rightarrow> (Inr None, s1)
     | (Inr r, s1) \<Rightarrow> (Inr r, s1))"

text \<open>
  The records of the array are objects: the loop writes \<^verbatim>\<open>files[i].filepath\<close> into the
  object, and an array may hold the same object more than once. The objects live in a heap,
  a table from addresses to records; the array is a list of addresses, \<^term>\<open>None\<close> for a
  \<^verbatim>\<open>null\<close> or \<^verbatim>\<open>undefined\<close> element.
\<close>

type_synonym heap = "nat \<Rightarrow> mongo_file"

text \<open>
  One turn of the loop of \<^verbatim>\<open>refreshMinioFileUrls\<close> (lines 375 to 400) on \<^verbatim>\<open>files[i]\<close>: what
  the turn pushed on \<^verbatim>\<open>filesToUpdate\<close>, the heap and the state after.
\<close>

definition refreshTurn ::
  "platform \<Rightarrow> 'x services \<Rightarrow> int \<Rightarrow> nat option \<Rightarrow> heap \<times> 'x state \<Rightarrow>
   file_update list \<times> heap \<times> 'x state" where
  "refreshTurn P V bufferSeconds ref = (\<lambda>(h, s0).
     case ref of
       None \<Rightarrow> ([], (h, s0))
     | Some a \<Rightarrow>
         (let file = h a in
          if falsy (file_id file) then ([], (h, s0))
          else if source file \<noteq> Some (FileSources_client P) then ([], (h, s0))
          else if falsy (filepath file) then ([], (h, s0))
          else if \<not> needsRefresh P (getTime V (fst s0)) (the (filepath file)) bufferSeconds
          then ([], (h, s0))
          else
            (case getNewMinioURL P V (filepath file) s0 of
               (Inl error, s1) \<Rightarrow> ([], (h, s1))
             | (Inr newURL, s1) \<Rightarrow>
                 if falsy newURL then ([], (h, s1))
                 else ([\<lparr>upd_file_id = the (file_id file), upd_filepath = the newURL\<rparr>],
                       (h(a := (h a)\<lparr>filepath := newURL\<rparr>), s1)))))"

fun refreshLoop ::
  "platform \<Rightarrow> 'x services \<Rightarrow> int \<Rightarrow> nat option list \<Rightarrow> heap \<times> 'x state \<Rightarrow>
   file_update list \<times> heap \<times> 'x state" where
  "refreshLoop P V bufferSeconds [] hs = ([], hs)"
| "refreshLoop P V bufferSeconds (ref # refs) hs =
     (case refreshTurn P V bufferSeconds ref hs of
        (pushed, hs1) \<Rightarrow>
          (case refreshLoop P V bufferSeconds refs hs1 of
             (filesToUpdate, hs2) \<Rightarrow> (pushed @ filesToUpdate, hs2)))"

text \<open>
  \<^verbatim>\<open>refreshMinioFileUrls(files, batchUpdateFiles, bufferSeconds)\<close> on an array: it returns
  the array it was given, the records changed in the heap. The callback may reject, and its
  rejection is the function's.
\<close>

definition refreshMinioFileUrls ::
  "platform \<Rightarrow> 'x services \<Rightarrow> nat option list \<Rightarrow>
   (file_update list \<Rightarrow> 'x \<Rightarrow> (js_error + unit) \<times> 'x) \<Rightarrow> int \<Rightarrow>
   heap \<times> 'x state \<Rightarrow> (js_error + nat option list) \<times> heap \<times> 'x state" where
  "refreshMinioFileUrls P V files batchUpdateFiles bufferSeconds = (\<lambda>hs0.
     if length files = 0 then (Inr files, hs0)
     else
       (case refreshLoop P V bufferSeconds files hs0 of
          (filesToUpdate, (h, (x, log))) \<Rightarrow>
            if length filesToUpdate > 0 then
              (case batchUpdateFiles filesToUpdate x of
                 (Inl e, x') \<Rightarrow> (Inl e, (h, (x', log @ [Persisted filesToUpdate])))
               | (Inr updated, x') \<Rightarrow> (Inr files, (h, (x', log @ [Persisted filesToUpdate]))))
            else (Inr files, (h, (x, log)))))"

text \<open>Lines 427 to 451, the body of the \<^verbatim>\<open>try\<close> of \<^verbatim>\<open>refreshMinioUrl\<close>.\<close>

definition refreshMinioUrlTry ::
  "platform \<Rightarrow> 'x services \<Rightarrow> string \<Rightarrow> (string, 'x) eff" where
  "refreshMinioUrlTry P V fp = (\<lambda>s0.
     case extractKeyFromMinioUrl P (Some fp) of
       Inl e \<Rightarrow> (Inl e, s0)
     | Inr minioKey \<Rightarrow>
         if minioKey = [] then (Inr fp, s0)
         else
           (case keyParts minioKey of
              None \<Rightarrow> (Inr fp, s0)
            | Some (basePath, userId, fileName) \<Rightarrow>
                getMinioURL P V userId fileName (bucketName P) basePath s0))"

text \<open>
  \<^verbatim>\<open>refreshMinioUrl(fileObj, bufferSeconds)\<close>; \<^verbatim>\<open>fileObj?.filepath || ''\<close> is the empty string
  for a missing record or path.
\<close>

definition filepathOrEmpty :: "mongo_file option \<Rightarrow> string" where
  "filepathOrEmpty fileObj =
     (case fileObj of
        None \<Rightarrow> []
      | Some f \<Rightarrow> if falsy (filepath f) then [] else the (filepath f))"

definition refreshMinioUrl ::
  "platform \<Rightarrow> 'x services \<Rightarrow> mongo_file option \<Rightarrow> int \<Rightarrow> (string, 'x) eff" where
  "refreshMinioUrl P V fileObj bufferSeconds = (\<lambda>s0.
     case fileObj of
       None \<Rightarrow> (Inr (filepathOrEmpty fileObj), s0)
     | Some f \<Rightarrow>
         if source f \<noteq> Some (FileSources_client P) \<or> falsy (filepath f)
         then (Inr (filepathOrEmpty fileObj), s0)
         else if \<not> needsRefresh P (getTime V (fst s0)) (the (filepath f)) bufferSeconds
         then (Inr (the (filepath f)), s0)
         else
           (case refreshMinioUrlTry P V (the (filepath f)) s0 of
              (Inl error, s1) \<Rightarrow> (Inr (the (filepath f)), s1)
            | (Inr newUrl, s1) \<Rightarrow> (Inr newUrl, s1)))"

section \<open>What the specification says, in terms of the collaborators\<close>

text \<open>
  The key of a path, in the words of the specification: when the path parses as an
  absolute URL, the URL's path with the leading separator stripped; otherwise the path
  itself, a leading separator stripped.
\<close>

definition keyOfPath :: "platform \<Rightarrow> string \<Rightarrow> string" where
  "keyOfPath P fp =
     (case new_URL P fp of
        Some u \<Rightarrow> drop 1 (pathname u)
      | None \<Rightarrow> if take 1 fp = ''/'' then drop 1 fp else fp)"

text \<open>The number of separators of a key: a key of three segments or more has at least two.\<close>

definition separators :: "string \<Rightarrow> nat" where
  "separators k = length (filter (\<lambda>c. c = CHR ''/'') k)"

text \<open>
  Reissuing the URL of a path: nothing when the key has fewer than three segments, the
  signer not asked; otherwise the signer is asked for the object of that key in the
  configured bucket, and its URL is the new URL, nothing when it fails or gives the empty
  string.
\<close>

definition reissued :: "platform \<Rightarrow> 'x services \<Rightarrow> string \<Rightarrow> 'x \<Rightarrow> string option \<times> 'x" where
  "reissued P V fp x =
     (if separators (keyOfPath P fp) < 2 then (None, x)
      else
        (case getSignedUrl V (initializeMinio P) (GetObjectCommand (bucketName P) (keyOfPath P fp))
                (minioUrlExpirySeconds P) x of
           (Inl e, x1) \<Rightarrow> (None, x1)
         | (Inr newURL, x1) \<Rightarrow> (if newURL = [] then None else Some newURL, x1)))"

text \<open>
  One turn of the batch refresh on the element \<open>ref\<close> of the array, from the heap and the
  world \<open>(h, x)\<close> to \<open>(h', x')\<close>, with the update \<open>d\<close> it contributes. A record is refreshed
  when it has an id and a path, carries this backend's tag, is stale at the reading of the
  clock of this turn, and the reissue gives a URL: then the update is its id with the new
  URL, and the record's path in the heap becomes the new URL. In every other case there is
  no update and the heap is as it was.
\<close>

definition turn_spec ::
  "platform \<Rightarrow> 'x services \<Rightarrow> int \<Rightarrow> nat option \<Rightarrow> heap \<times> 'x \<Rightarrow> file_update option \<Rightarrow>
   heap \<times> 'x \<Rightarrow> bool" where
  "turn_spec P V bufferSeconds ref hx d hx' =
     (case hx of (h, x) \<Rightarrow>
        (case ref of
           None \<Rightarrow> d = None \<and> hx' = (h, x)
         | Some a \<Rightarrow>
             (case (file_id (h a), filepath (h a)) of
                (Some i, Some fp) \<Rightarrow>
                  if i \<noteq> [] \<and> fp \<noteq> [] \<and> source (h a) = Some (FileSources_client P)
                     \<and> needsRefresh P (getTime V x) fp bufferSeconds
                  then
                    (case reissued P V fp x of
                       (None, x1) \<Rightarrow> d = None \<and> hx' = (h, x1)
                     | (Some newURL, x1) \<Rightarrow>
                         d = Some \<lparr>upd_file_id = i, upd_filepath = newURL\<rparr>
                         \<and> hx' = (h(a := (h a)\<lparr>filepath := Some newURL\<rparr>), x1))
                  else d = None \<and> hx' = (h, x)
              | _ \<Rightarrow> d = None \<and> hx' = (h, x))))"

text \<open>The updates of a pass, from what its turns contributed.\<close>

definition updates_of :: "file_update option list \<Rightarrow> file_update list" where
  "updates_of ds = concat (map (\<lambda>d. case d of None \<Rightarrow> [] | Some u \<Rightarrow> [u]) ds)"

section \<open>A sample platform and a simulated store\<close>

text \<open>
  The closed examples below run the adapter on a sample platform, which tabulates what Node
  gives on the strings the examples use (\<^verbatim>\<open>new URL\<close> throws on a string without a scheme;
  \<^verbatim>\<open>2024-01-01T00:00:00Z\<close> is 1704067200000 ms after the epoch; \<^verbatim>\<open>parseInt('abc')\<close> is
  \<^verbatim>\<open>NaN\<close>), and on a simulated world: a clock, the keys of the bucket, an outage during
  which every command fails, a signer that may be down and otherwise stamps its URLs
  01:01:40 with a TTL of seven days, and the temporary files of the local disk, some of
  which the process may not unlink.
\<close>

definition staleUrl :: string where
  "staleUrl = ''https://m.io/images/u1/a.png?X-Amz-Date=20240101T000000Z&X-Amz-Expires=3600&X-Amz-Signature=s''"

definition freshUrl :: string where
  "freshUrl = ''https://m.io/images/u1/b.png?X-Amz-Date=20240101T010000Z&X-Amz-Expires=3600&X-Amz-Signature=s''"

definition badTtlUrl :: string where
  "badTtlUrl = ''https://m.io/images/u1/c.png?X-Amz-Date=20240101T000000Z&X-Amz-Expires=abc&X-Amz-Signature=s''"

definition badDateUrl :: string where
  "badDateUrl = ''https://m.io/images/u1/d.png?X-Amz-Date=notadate&X-Amz-Expires=3600&X-Amz-Signature=s''"

definition noTtlUrl :: string where
  "noTtlUrl = ''https://m.io/images/u1/e.png?X-Amz-Date=20240101T000000Z&X-Amz-Signature=s''"

definition newUrl_a :: string where
  "newUrl_a = ''https://m.io/images/u1/a.png?X-Amz-Date=20240101T010140Z&X-Amz-Expires=604800&X-Amz-Signature=new''"

definition sample_URL :: "string \<Rightarrow> url option" where
  "sample_URL s =
     (if s = staleUrl then
        Some \<lparr>pathname = ''/images/u1/a.png'',
              searchParams = [(''X-Amz-Date'', ''20240101T000000Z''), (''X-Amz-Expires'', ''3600''),
                              (''X-Amz-Signature'', ''s'')]\<rparr>
      else if s = freshUrl then
        Some \<lparr>pathname = ''/images/u1/b.png'',
              searchParams = [(''X-Amz-Date'', ''20240101T010000Z''), (''X-Amz-Expires'', ''3600''),
                              (''X-Amz-Signature'', ''s'')]\<rparr>
      else if s = badTtlUrl then
        Some \<lparr>pathname = ''/images/u1/c.png'',
              searchParams = [(''X-Amz-Date'', ''20240101T000000Z''), (''X-Amz-Expires'', ''abc''),
                              (''X-Amz-Signature'', ''s'')]\<rparr>
      else if s = badDateUrl then
        Some \<lparr>pathname = ''/images/u1/d.png'',
              searchParams = [(''X-Amz-Date'', ''notadate''), (''X-Amz-Expires'', ''3600''),
                              (''X-Amz-Signature'', ''s'')]\<rparr>
      else if s = noTtlUrl then
        Some \<lparr>pathname = ''/images/u1/e.png'',
              searchParams = [(''X-Amz-Date'', ''20240101T000000Z''), (''X-Amz-Signature'', ''s'')]\<rparr>
      else if s = newUrl_a then
        Some \<lparr>pathname = ''/images/u1/a.png'',
              searchParams = [(''X-Amz-Date'', ''20240101T010140Z''), (''X-Amz-Expires'', ''604800''),
                              (''X-Amz-Signature'', ''new'')]\<rparr>
      else None)"

definition sample_dateParse :: "string \<Rightarrow> jsnum" where
  "sample_dateParse s =
     (if s = ''2024-01-01T00:00:00Z'' then Num 1704067200000
      else if s = ''2024-01-01T01:00:00Z'' then Num 1704070800000
      else if s = ''2024-01-01T01:01:40Z'' then Num 1704070900000
      else NaN)"

definition sample_parseInt :: "string \<Rightarrow> nat option \<Rightarrow> jsnum" where
  "sample_parseInt s radix =
     (if s = ''3600'' then Num 3600 else if s = ''1000'' then Num 1000
      else if s = ''604800'' then Num 604800 else NaN)"

definition sample_basename :: "string \<Rightarrow> string" where
  "sample_basename p = rev (takeWhile (\<lambda>c. c \<noteq> CHR ''/'') (rev p))"

definition sample_platform :: platform where
  "sample_platform =
     \<lparr>new_URL = sample_URL, dateParse = sample_dateParse, jsParseInt = sample_parseInt,
      path_basename = sample_basename, FileSources_client = ''client'',
      MINIO_BUCKET_NAME = None, MINIO_URL_EXPIRY_SECONDS = None, MINIO_REFRESH_EXPIRY_MS = None,
      MINIO_REGION = Some ''us-east-1'', MINIO_ENDPOINT = Some ''http://m.io:9000'',
      MINIO_ACCESS_KEY = None, MINIO_SECRET_KEY = None\<rparr>"

record world =
  clock :: int
  objects :: "string list"
  outage :: bool
  signer_down :: bool
  tmp_files :: "(string \<times> nat) list"
  undeletable :: "string list"

definition networkError :: js_error where
  "networkError = JsError ''NetworkingError'' None ''connect ECONNREFUSED''"

definition notFound :: js_error where
  "notFound = JsError ''NotFound'' None ''NotFound''"

definition sim_send :: "s3client \<Rightarrow> command \<Rightarrow> world \<Rightarrow> (js_error + unit) \<times> world" where
  "sim_send c cmd w =
     (if outage w then (Inl networkError, w)
      else
        (case cmd of
           PutObjectCommand b k payload \<Rightarrow> (Inr (), w\<lparr>objects := k # objects w\<rparr>)
         | GetObjectCommand b k \<Rightarrow> (if List.member (objects w) k then Inr () else Inl notFound, w)
         | HeadObjectCommand b k \<Rightarrow> (if List.member (objects w) k then Inr () else Inl notFound, w)
         | DeleteObjectCommand b k \<Rightarrow> (Inr (), w\<lparr>objects := removeAll k (objects w)\<rparr>)))"

definition signerError :: js_error where
  "signerError = JsError ''CredentialsProviderError'' None ''Could not load credentials''"

definition sim_sign ::
  "s3client option \<Rightarrow> command \<Rightarrow> int \<Rightarrow> world \<Rightarrow> (js_error + string) \<times> world" where
  "sim_sign client cmd expiresIn w =
     (case client of
        None \<Rightarrow> (Inl (TypeError ''Cannot read properties of null''), w)
      | Some c \<Rightarrow>
          if signer_down w then (Inl signerError, w)
          else
            (case cmd of
               GetObjectCommand b k \<Rightarrow>
                 (Inr (''https://m.io/'' @ k
                        @ ''?X-Amz-Date=20240101T010140Z&X-Amz-Expires=604800&X-Amz-Signature=new''), w)
             | _ \<Rightarrow> (Inl (Error ''not presignable''), w)))"

definition ENOENT :: js_error where
  "ENOENT = JsError ''Error'' (Some ''ENOENT'') ''ENOENT: no such file or directory''"

definition EPERM :: js_error where
  "EPERM = JsError ''Error'' (Some ''EPERM'') ''EPERM: operation not permitted''"

definition sim_stat :: "string \<Rightarrow> world \<Rightarrow> js_error + nat" where
  "sim_stat p w = (case map_of (tmp_files w) p of None \<Rightarrow> Inl ENOENT | Some bytes \<Rightarrow> Inr bytes)"

definition sim_unlink :: "string \<Rightarrow> world \<Rightarrow> (js_error + unit) \<times> world" where
  "sim_unlink p w =
     (case map_of (tmp_files w) p of
        None \<Rightarrow> (Inl ENOENT, w)
      | Some bytes \<Rightarrow>
          if List.member (undeletable w) p then (Inl EPERM, w)
          else (Inr (), w\<lparr>tmp_files := filter (\<lambda>(q, n). q \<noteq> p) (tmp_files w)\<rparr>))"

definition sim :: "world services" where
  "sim = \<lparr>getTime = clock, send = sim_send, getSignedUrl = sim_sign, stat = sim_stat,
          unlink = sim_unlink\<rparr>"

definition sim_persist :: "file_update list \<Rightarrow> world \<Rightarrow> (js_error + unit) \<times> world" where
  "sim_persist updates w = (Inr (), w)"

text \<open>
  The world at 01:01:40 on 2024-01-01, the store holding two objects and the disk one
  temporary file of 4096 bytes; the same world during an outage, with the signer down, and
  during an outage with the temporary file protected.
\<close>

definition world0 :: world where
  "world0 = \<lparr>clock = 1704070900000, objects = [''images/u1/a.png'', ''images/u2/u1.png''],
             outage = False, signer_down = False, tmp_files = [(''/tmp/x'', 4096)],
             undeletable = []\<rparr>"

definition world_down :: world where
  "world_down = world0\<lparr>outage := True\<rparr>"

definition world_unsigned :: world where
  "world_unsigned = world0\<lparr>signer_down := True\<rparr>"

definition world_protected :: world where
  "world_protected = world0\<lparr>outage := True, undeletable := [''/tmp/x'']\<rparr>"

text \<open>Records of the host application: two stored under bare keys, three of a batch.\<close>

definition stored_a :: mongo_file where
  "stored_a = \<lparr>file_id = Some ''a'', filepath = Some ''images/u1/a.png'', source = Some ''client''\<rparr>"

definition stored_u2 :: mongo_file where
  "stored_u2 = \<lparr>file_id = Some ''d'', filepath = Some ''images/u2/u1.png'', source = Some ''client''\<rparr>"

definition rec_a :: mongo_file where
  "rec_a = \<lparr>file_id = Some ''a'', filepath = Some staleUrl, source = Some ''client''\<rparr>"

definition rec_b :: mongo_file where
  "rec_b = \<lparr>file_id = Some ''b'', filepath = Some freshUrl, source = Some ''client''\<rparr>"

definition rec_c :: mongo_file where
  "rec_c = \<lparr>file_id = Some ''c'', filepath = Some staleUrl, source = Some ''other''\<rparr>"

definition rec_short :: mongo_file where
  "rec_short = \<lparr>file_id = None, filepath = Some ''a/b'', source = Some ''client''\<rparr>"

text \<open>A heap with the three records of the batch at the addresses 0, 1 and 2.\<close>

definition heap0 :: heap where
  "heap0 = (\<lambda>a. if a = 0 then rec_a else if a = 1 then rec_b else rec_c)"

definition upd_a :: file_update where
  "upd_a = \<lparr>upd_file_id = ''a'', upd_filepath = newUrl_a\<rparr>"

text \<open>The sample platform with the maximum-age override set to one second.\<close>

definition platform_max_age :: platform where
  "platform_max_age = sample_platform\<lparr>MINIO_REFRESH_EXPIRY_MS := Some ''1000''\<rparr>"

text \<open>The command that uploads the temporary file \<^verbatim>\<open>/tmp/x\<close> of user \<^verbatim>\<open>u1\<close> as file \<^verbatim>\<open>f1\<close>.\<close>

definition put_x :: command where
  "put_x = PutObjectCommand ''q-hub'' ''images/u1/f1__x'' (ReadStream ''/tmp/x'')"

section \<open>Properties of the string methods and of the samples\<close>

lemma js_split_not_Nil: "js_split c s \<noteq> []"
  by (induction s) (auto split: list.splits)

lemma js_split_prefix:
  "c \<notin> set b \<Longrightarrow> js_split c (b @ c # r) = b # js_split c r"
  by (induction b) (auto split: list.splits simp: js_split_not_Nil)

lemma js_join_split: "js_join [c] (js_split c s) = s"
proof (induction s)
  case Nil
  then show ?case by simp
next
  case (Cons x xs)
  show ?case
  proof (cases "js_split c xs")
    case Nil
    then show ?thesis using js_split_not_Nil by blast
  next
    case (Cons p ps)
    with Cons.IH show ?thesis by (cases ps) auto
  qed
qed

lemma keyParts_None_iff: "keyParts k = None \<longleftrightarrow> length (js_split CHR ''/'' k) < 3"
  by (simp add: keyParts_def Let_def)

lemma keyParts_encoded:
  assumes "CHR ''/'' \<notin> set basePath" "CHR ''/'' \<notin> set userId"
  shows "keyParts (getMinioKey basePath userId fileName) = Some (basePath, userId, fileName)"
proof -
  have "js_split CHR ''/'' (getMinioKey basePath userId fileName)
          = basePath # userId # js_split CHR ''/'' fileName"
    using assms by (simp add: getMinioKey_def js_split_prefix)
  then show ?thesis
    using js_join_split [of "CHR ''/''" fileName] js_split_not_Nil [of "CHR ''/''" fileName]
    by (simp add: keyParts_def Let_def numeral_2_eq_2)
qed

lemmas sample_urls = staleUrl_def freshUrl_def badTtlUrl_def badDateUrl_def noTtlUrl_def
  newUrl_a_def

lemma sample_URL_stale:
  "new_URL sample_platform staleUrl =
     Some \<lparr>pathname = ''/images/u1/a.png'',
           searchParams = [(''X-Amz-Date'', ''20240101T000000Z''), (''X-Amz-Expires'', ''3600''),
                           (''X-Amz-Signature'', ''s'')]\<rparr>"
  by (simp add: sample_platform_def sample_URL_def)

lemma sample_URL_badTtl:
  "new_URL sample_platform badTtlUrl =
     Some \<lparr>pathname = ''/images/u1/c.png'',
           searchParams = [(''X-Amz-Date'', ''20240101T000000Z''), (''X-Amz-Expires'', ''abc''),
                           (''X-Amz-Signature'', ''s'')]\<rparr>"
  by (simp add: sample_platform_def sample_URL_def sample_urls)

lemma sample_URL_badDate:
  "new_URL sample_platform badDateUrl =
     Some \<lparr>pathname = ''/images/u1/d.png'',
           searchParams = [(''X-Amz-Date'', ''notadate''), (''X-Amz-Expires'', ''3600''),
                           (''X-Amz-Signature'', ''s'')]\<rparr>"
  by (simp add: sample_platform_def sample_URL_def sample_urls)

lemma sample_date_midnight:
  "dateParse sample_platform (amzDateIso ''20240101T000000Z'') = Num 1704067200000"
  by (simp add: sample_platform_def sample_dateParse_def amzDateIso_def substring_def)

section \<open>The key codec\<close>

text \<open>
  C5, as amended. For every base path that is not empty and has no separator, every owner
  id without a separator and every file name (separators allowed), when the encoded key
  \<^verbatim>\<open>basePath/ownerId/fileName\<close> is not itself an absolute URL for \<^verbatim>\<open>new URL\<close>, decoding gives
  the key back and splits it into the original triple, the segments after the second joined
  again by the separator into the file name.
\<close>

theorem key_roundtrip:
  assumes "basePath \<noteq> []" "CHR ''/'' \<notin> set basePath" "CHR ''/'' \<notin> set userId"
    and "new_URL P (getMinioKey basePath userId fileName) = None"
  shows "extractKeyFromMinioUrl P (Some (getMinioKey basePath userId fileName))
           = Inr (getMinioKey basePath userId fileName)
         \<and> keyParts (getMinioKey basePath userId fileName) = Some (basePath, userId, fileName)"
proof -
  have "\<not> startsWith (getMinioKey basePath userId fileName) ''/''"
    using assms(1,2) by (cases basePath) (auto simp: startsWith_def getMinioKey_def)
  moreover have "getMinioKey basePath userId fileName \<noteq> []"
    by (simp add: getMinioKey_def)
  ultimately show ?thesis
    using assms by (simp add: extractKeyFromMinioUrl_def keyParts_encoded Let_def)
qed

theorem key_roundtrip_witness:
  "extractKeyFromMinioUrl sample_platform (Some (getMinioKey ''images'' ''u1'' ''f1__x/y.png''))
     = Inr ''images/u1/f1__x/y.png''
   \<and> keyParts ''images/u1/f1__x/y.png'' = Some (''images'', ''u1'', ''f1__x/y.png'')"
proof -
  have "new_URL sample_platform (getMinioKey ''images'' ''u1'' ''f1__x/y.png'') = None"
    by (simp add: getMinioKey_def sample_platform_def sample_URL_def sample_urls)
  from key_roundtrip [OF _ _ _ this] show ?thesis
    by (simp add: getMinioKey_def)
qed

text \<open>
  The claim as stated fails for the empty base path: the encoded key \<^verbatim>\<open>/u1/f.png\<close> begins
  with the separator, which \<^verbatim>\<open>extractKeyFromMinioUrl\<close> strips, and two segments are left.
\<close>

theorem key_roundtrip_counterexample:
  "extractKeyFromMinioUrl sample_platform (Some (getMinioKey [] ''u1'' ''f.png'')) = Inr ''u1/f.png''
   \<and> keyParts ''u1/f.png'' = None"
  by (simp add: extractKeyFromMinioUrl_def getMinioKey_def startsWith_def substringFrom_def
      keyParts_def sample_platform_def sample_URL_def sample_urls)

lemma extractKey_throws_iff:
  "(falsy fp \<longrightarrow> extractKeyFromMinioUrl P fp = Inl (Error ''Invalid input: URL or key is empty''))
   \<and> (\<not> falsy fp \<longrightarrow> (\<exists>k. extractKeyFromMinioUrl P fp = Inr k))"
  by (auto simp add: extractKeyFromMinioUrl_def Let_def split: option.splits)

lemma getNewMinioURL_returns: "\<exists>r s'. getNewMinioURL P V fp s = (Inr r, s')"
  by (auto simp add: getNewMinioURL_def split: prod.splits sum.splits)

text \<open>
  C4, as amended. Key decoding never throws for a short key. \<^verbatim>\<open>extractKeyFromMinioUrl\<close>
  throws only on a missing or empty input, and then a plain \<^verbatim>\<open>Error\<close>; on every other input
  it returns a key, however few segments it has. When fewer than three segments are
  recovered, \<^verbatim>\<open>getNewMinioURL\<close> returns \<^verbatim>\<open>undefined\<close> and asks the signer for nothing; it
  returns, and does not throw, on every input.
\<close>

theorem short_key_yields_undefined:
  "(falsy fp \<longrightarrow> extractKeyFromMinioUrl P fp = Inl (Error ''Invalid input: URL or key is empty''))
   \<and> (\<not> falsy fp \<longrightarrow> (\<exists>k. extractKeyFromMinioUrl P fp = Inr k))
   \<and> (\<forall>k. extractKeyFromMinioUrl P fp = Inr k \<and> length (js_split CHR ''/'' k) < 3
          \<longrightarrow> getNewMinioURL P V fp s = (Inr None, s))
   \<and> (\<exists>r s'. getNewMinioURL P V fp s = (Inr r, s'))"
proof -
  have "getNewMinioURL P V fp s = (Inr None, s)"
    if "extractKeyFromMinioUrl P fp = Inr k" "length (js_split CHR ''/'' k) < 3" for k
    using that keyParts_None_iff [of k]
    by (simp add: getNewMinioURL_def getNewMinioURLTry_def)
  then show ?thesis
    using extractKey_throws_iff [of fp P] getNewMinioURL_returns [of P V fp s] by blast
qed

theorem short_key_yields_undefined_witness:
  "extractKeyFromMinioUrl sample_platform (Some ''/only'') = Inr ''only''
   \<and> length (js_split CHR ''/'' ''only'') < 3
   \<and> getNewMinioURL sample_platform sim (Some ''/only'') (world0, []) = (Inr None, (world0, []))"
proof -
  have k: "extractKeyFromMinioUrl sample_platform (Some ''/only'') = Inr ''only''"
    by (simp add: extractKeyFromMinioUrl_def startsWith_def substringFrom_def
        sample_platform_def sample_URL_def sample_urls)
  have l: "length (js_split CHR ''/'' ''only'') < 3"
    by simp
  from short_key_yields_undefined [of "Some ''/only''" sample_platform sim "(world0, [])"] k l
  show ?thesis by blast
qed

text \<open>
  The claim as stated fails on \<^verbatim>\<open>a/b\<close>: two segments, and the decoding returns (the key from
  \<^verbatim>\<open>extractKeyFromMinioUrl\<close>, \<^verbatim>\<open>undefined\<close> from \<^verbatim>\<open>getNewMinioURL\<close>) where the claim has it throw.
\<close>

theorem short_key_counterexample:
  "extractKeyFromMinioUrl sample_platform (Some ''a/b'') = Inr ''a/b''
   \<and> length (js_split CHR ''/'' ''a/b'') = 2
   \<and> getNewMinioURL sample_platform sim (Some ''a/b'') (world0, []) = (Inr None, (world0, []))"
  by (simp add: getNewMinioURL_def getNewMinioURLTry_def extractKeyFromMinioUrl_def keyParts_def
      startsWith_def sample_platform_def sample_URL_def sample_urls)

section \<open>The expiry policy\<close>

lemma needsRefresh_unparseable_url: "new_URL P signedUrl = None \<Longrightarrow> needsRefresh P now signedUrl b"
  by (simp add: needsRefresh_def)

lemma needsRefresh_missing_fields:
  assumes "new_URL P signedUrl = Some u" "searchParams_has u ''X-Amz-Signature''"
    and "falsy (searchParams_get u ''X-Amz-Expires'') \<or> falsy (searchParams_get u ''X-Amz-Date'')"
  shows "needsRefresh P now signedUrl b"
  using assms by (auto simp add: needsRefresh_def Let_def)

text \<open>
  C3. The claim is the fail-safe the code's comments announce, and the code misses it: for
  a URL with the signature marker whose date or TTL parameter is present and does not
  parse, nothing throws; the date is invalid, every comparison with it is false, and
  \<^verbatim>\<open>needsRefresh\<close> returns \<^verbatim>\<open>false\<close>. This is so for a date that does not parse, with or
  without the maximum-age override, and for a TTL that does not parse when no override is
  set. (For a URL that does not parse, and for a missing or empty parameter, it returns
  \<^verbatim>\<open>true\<close>: the two lemmas above.)
\<close>

theorem unparseable_reported_fresh:
  assumes "new_URL P signedUrl = Some u"
    and "searchParams_has u ''X-Amz-Signature''"
    and "searchParams_get u ''X-Amz-Expires'' = Some e" "e \<noteq> []"
    and "searchParams_get u ''X-Amz-Date'' = Some d" "d \<noteq> []"
    and "dateParse P (amzDateIso d) = NaN
         \<or> (jsParseInt P e None = NaN \<and> minioRefreshExpiryMs P = None)"
  shows "\<not> needsRefresh P now signedUrl bufferSeconds"
  using assms by (auto simp add: needsRefresh_def Let_def split: option.splits)

theorem unparseable_reported_fresh_witness:
  "\<not> needsRefresh sample_platform 1704070900000 badTtlUrl 3600
   \<and> \<not> needsRefresh sample_platform 1704070900000 badDateUrl 3600"
proof -
  have ttl: "jsParseInt sample_platform ''abc'' None = NaN \<and> minioRefreshExpiryMs sample_platform = None"
    by (simp add: sample_platform_def sample_parseInt_def minioRefreshExpiryMs_def)
  have date: "dateParse sample_platform (amzDateIso ''notadate'') = NaN"
    by (simp add: sample_platform_def sample_dateParse_def amzDateIso_def substring_def)
  have "\<not> needsRefresh sample_platform 1704070900000 badTtlUrl 3600"
    using ttl unparseable_reported_fresh [OF sample_URL_badTtl, of "''abc''" "''20240101T000000Z''"]
    by (simp add: searchParams_has_def searchParams_get_def)
  moreover have "\<not> needsRefresh sample_platform 1704070900000 badDateUrl 3600"
    using date unparseable_reported_fresh [OF sample_URL_badDate, of "''3600''" "''notadate''"]
    by (simp add: searchParams_has_def searchParams_get_def)
  ultimately show ?thesis by simp
qed

lemma sample_URL_noTtl:
  "new_URL sample_platform noTtlUrl =
     Some \<lparr>pathname = ''/images/u1/e.png'',
           searchParams = [(''X-Amz-Date'', ''20240101T000000Z''), (''X-Amz-Signature'', ''s'')]\<rparr>"
  by (simp add: sample_platform_def sample_URL_def sample_urls)

lemma max_age_platform:
  "new_URL platform_max_age = new_URL sample_platform"
  "dateParse platform_max_age = dateParse sample_platform"
  "MINIO_REFRESH_EXPIRY_MS platform_max_age = Some ''1000''"
  "jsParseInt platform_max_age ''1000'' (Some 10) = Num 1000"
  by (simp_all add: platform_max_age_def sample_platform_def sample_parseInt_def)

lemma sample_iso_midnight:
  "dateParse sample_platform
     (take 4 ''20240101T000000Z'' @ ''-'' @ take 2 (drop 4 ''20240101T000000Z'') @ ''-''
        @ take 2 (drop 6 ''20240101T000000Z'') @ ''T'' @ take 2 (drop 9 ''20240101T000000Z'') @ '':''
        @ take 2 (drop 11 ''20240101T000000Z'') @ '':'' @ take 2 (drop 13 ''20240101T000000Z'')
        @ ''Z'') = Num 1704067200000"
  by (simp add: sample_platform_def sample_dateParse_def)




text \<open>
  C8, as amended. Let the URL parse and carry the signature marker, and let
  \<^verbatim>\<open>MINIO_REFRESH_EXPIRY_MS\<close> be set to a string that \<^verbatim>\<open>parseInt\<close> reads in base 10 as a positive
  \<open>maxAgeMs\<close>. If the URL's \<^verbatim>\<open>X-Amz-Expires\<close> or \<^verbatim>\<open>X-Amz-Date\<close> parameter is missing or
  empty, \<^verbatim>\<open>needsRefresh\<close> reports stale whatever the age. If both are there and the date,
  rewritten as above, is read by \<^verbatim>\<open>Date\<close> as \<open>issuedAt\<close>, it reports stale exactly when
  \<open>now - issuedAt \<ge> maxAgeMs\<close>, whatever the value of the TTL and of the buffer.
\<close>

theorem stale_by_max_age:
  assumes "new_URL P signedUrl = Some u"
    and "map_of (searchParams u) ''X-Amz-Signature'' \<noteq> None"
    and "MINIO_REFRESH_EXPIRY_MS P = Some v" "v \<noteq> []"
    and "jsParseInt P v (Some 10) = Num maxAgeMs" "0 < maxAgeMs"
  shows "(map_of (searchParams u) ''X-Amz-Expires'' = None
            \<or> map_of (searchParams u) ''X-Amz-Expires'' = Some []
            \<or> map_of (searchParams u) ''X-Amz-Date'' = None
            \<or> map_of (searchParams u) ''X-Amz-Date'' = Some []
          \<longrightarrow> needsRefresh P now signedUrl bufferSeconds)
       \<and> (\<forall>e d issuedAt.
            map_of (searchParams u) ''X-Amz-Expires'' = Some e \<and> e \<noteq> []
            \<and> map_of (searchParams u) ''X-Amz-Date'' = Some d \<and> d \<noteq> []
            \<and> dateParse P (take 4 d @ ''-'' @ take 2 (drop 4 d) @ ''-'' @ take 2 (drop 6 d) @ ''T''
                  @ take 2 (drop 9 d) @ '':'' @ take 2 (drop 11 d) @ '':'' @ take 2 (drop 13 d)
                  @ ''Z'') = Num issuedAt
          \<longrightarrow> needsRefresh P now signedUrl bufferSeconds = (now - issuedAt \<ge> maxAgeMs))"
proof -
  have m: "minioRefreshExpiryMs P = Some maxAgeMs"
    using assms(3-6) by (simp add: minioRefreshExpiryMs_def)
  have missing: "needsRefresh P now signedUrl bufferSeconds"
    if "map_of (searchParams u) ''X-Amz-Expires'' = None
            \<or> map_of (searchParams u) ''X-Amz-Expires'' = Some []
            \<or> map_of (searchParams u) ''X-Amz-Date'' = None
            \<or> map_of (searchParams u) ''X-Amz-Date'' = Some []"
    using that assms(1,2)
    by (auto simp add: needsRefresh_def Let_def searchParams_has_def searchParams_get_def)
  have present: "needsRefresh P now signedUrl bufferSeconds = (now - issuedAt \<ge> maxAgeMs)"
    if "map_of (searchParams u) ''X-Amz-Expires'' = Some e" "e \<noteq> []"
      "map_of (searchParams u) ''X-Amz-Date'' = Some d" "d \<noteq> []"
      "dateParse P (take 4 d @ ''-'' @ take 2 (drop 4 d) @ ''-'' @ take 2 (drop 6 d) @ ''T''
                  @ take 2 (drop 9 d) @ '':'' @ take 2 (drop 11 d) @ '':'' @ take 2 (drop 13 d)
                  @ ''Z'') = Num issuedAt" for e d issuedAt
  proof -
    have "dateParse P (amzDateIso d) = Num issuedAt"
      using that(5) by (simp add: amzDateIso_def substring_def)
    then show ?thesis
      using that(1-4) assms(1,2) m
      by (simp add: needsRefresh_def Let_def searchParams_has_def searchParams_get_def)
  qed
  show ?thesis using missing present by blast
qed

theorem stale_by_max_age_witness:
  "needsRefresh platform_max_age (1704067200000 + 2000) staleUrl 0
   \<and> \<not> needsRefresh platform_max_age (1704067200000 + 500) staleUrl 0
   \<and> needsRefresh platform_max_age (1704067200000 + 500) noTtlUrl 0"
proof -
  let ?u = "\<lparr>pathname = ''/images/u1/a.png'',
              searchParams = [(''X-Amz-Date'', ''20240101T000000Z''), (''X-Amz-Expires'', ''3600''),
                              (''X-Amz-Signature'', ''s'')]\<rparr>"
  let ?n = "\<lparr>pathname = ''/images/u1/e.png'',
              searchParams = [(''X-Amz-Date'', ''20240101T000000Z''), (''X-Amz-Signature'', ''s'')]\<rparr>"
  have u: "new_URL platform_max_age staleUrl = Some ?u"
    by (simp add: max_age_platform sample_URL_stale)
  have n: "new_URL platform_max_age noTtlUrl = Some ?n"
    by (simp add: max_age_platform sample_URL_noTtl)
  have sig: "map_of (searchParams ?u) ''X-Amz-Signature'' \<noteq> None"
    "map_of (searchParams ?n) ''X-Amz-Signature'' \<noteq> None"
    by simp_all
  have pos: "''1000'' \<noteq> []" "0 < (1000::int)"
    by simp_all
  have t: "dateParse platform_max_age
     (take 4 ''20240101T000000Z'' @ ''-'' @ take 2 (drop 4 ''20240101T000000Z'') @ ''-''
        @ take 2 (drop 6 ''20240101T000000Z'') @ ''T'' @ take 2 (drop 9 ''20240101T000000Z'') @ '':''
        @ take 2 (drop 11 ''20240101T000000Z'') @ '':'' @ take 2 (drop 13 ''20240101T000000Z'')
        @ ''Z'') = Num 1704067200000"
    using sample_iso_midnight by (simp add: max_age_platform)
  have present: "map_of (searchParams ?u) ''X-Amz-Expires'' = Some ''3600'' \<and> ''3600'' \<noteq> []
      \<and> map_of (searchParams ?u) ''X-Amz-Date'' = Some ''20240101T000000Z''
      \<and> ''20240101T000000Z'' \<noteq> []"
    by simp
  have missing: "map_of (searchParams ?n) ''X-Amz-Expires'' = None"
    by simp
  from stale_by_max_age [OF u sig(1) max_age_platform(3) pos(1) max_age_platform(4) pos(2),
      of "1704067200000 + 2000" 0] present t
  have a: "needsRefresh platform_max_age (1704067200000 + 2000) staleUrl 0"
    by (elim conjE allE [of _ "''3600''"] allE [of _ "''20240101T000000Z''"]
        allE [of _ "1704067200000"]) simp
  from stale_by_max_age [OF u sig(1) max_age_platform(3) pos(1) max_age_platform(4) pos(2),
      of "1704067200000 + 500" 0] present t
  have b: "\<not> needsRefresh platform_max_age (1704067200000 + 500) staleUrl 0"
    by (elim conjE allE [of _ "''3600''"] allE [of _ "''20240101T000000Z''"]
        allE [of _ "1704067200000"]) simp
  from stale_by_max_age [OF n sig(2) max_age_platform(3) pos(1) max_age_platform(4) pos(2),
      of "1704067200000 + 500" 0] missing
  have c: "needsRefresh platform_max_age (1704067200000 + 500) noTtlUrl 0"
    by blast
  from a b c show ?thesis by simp
qed

text \<open>
  The claim as stated, for every signed URL, fails for one without a TTL parameter: with
  the maximum age set to 1000 ms, a URL issued 0 ms ago is reported stale.
\<close>

theorem stale_by_max_age_counterexample:
  "MINIO_REFRESH_EXPIRY_MS platform_max_age = Some ''1000''
   \<and> minioRefreshExpiryMs platform_max_age = Some 1000
   \<and> \<not> 1704067200000 - 1704067200000 \<ge> (1000::int)
   \<and> needsRefresh platform_max_age 1704067200000 noTtlUrl 0"
  by (simp add: needsRefresh_def max_age_platform sample_URL_noTtl searchParams_has_def
      searchParams_get_def minioRefreshExpiryMs_def)

section \<open>Delete\<close>

lemma client_send_Some:
  "client_send V (Some c) cmd (x, log) =
     (fst (send V c cmd x), (snd (send V c cmd x), log @ [Sent cmd]))"
  by (simp add: client_send_def split: prod.splits)

lemma client_send_None:
  "client_send V None cmd s = (Inl (TypeError ''Cannot read properties of null''), s)"
  by (cases s) (simp add: client_send_def)

lemma deleteAndVerify_log:
  assumes "initializeMinio P = Some c"
  shows "\<exists>r x' rest. deleteAndVerify P V key (x, log)
           = (r, (x', log @ Sent (DeleteObjectCommand (bucketName P) key) # rest))
         \<and> (\<forall>x2. send V c (DeleteObjectCommand (bucketName P) key) x = (Inr (), x2) \<longrightarrow> r = Inr ())"
  using assms
  by (auto simp add: deleteAndVerify_def client_send_Some split: prod.splits sum.splits)

lemma deleteTry_probe_sent:
  assumes "initializeMinio P = Some c"
  shows "\<exists>r x' rest. deleteTry P V key (x, log)
           = (r, (x', log @ Sent (HeadObjectCommand (bucketName P) key) # rest))"
proof -
  obtain hr x1 where h: "send V c (HeadObjectCommand (bucketName P) key) x = (hr, x1)"
    by (cases "send V c (HeadObjectCommand (bucketName P) key) x")
  obtain r x' rest where d: "deleteAndVerify P V key (x1, log @ [Sent (HeadObjectCommand (bucketName P) key)])
      = (r, (x', (log @ [Sent (HeadObjectCommand (bucketName P) key)]) @ Sent (DeleteObjectCommand (bucketName P) key) # rest))"
    using deleteAndVerify_log [OF assms, of V key x1 "log @ [Sent (HeadObjectCommand (bucketName P) key)]"]
    by blast
  show ?thesis
    using assms h d
    by (auto simp add: deleteTry_def client_send_Some split: sum.splits)
qed

lemma deleteTry_no_client:
  assumes "initializeMinio P = None"
  shows "deleteTry P V key s = (Inl (TypeError ''Cannot read properties of null''), s)"
  using assms
  by (simp add: deleteTry_def deleteAndVerify_def client_send_None TypeError_def)

lemma key_a: "extractKeyFromMinioUrl sample_platform (filepath stored_a) = Inr ''images/u1/a.png''"
  by (simp add: stored_a_def extractKeyFromMinioUrl_def startsWith_def sample_platform_def
      sample_URL_def sample_urls)

lemma key_u2: "extractKeyFromMinioUrl sample_platform (filepath stored_u2) = Inr ''images/u2/u1.png''"
  by (simp add: stored_u2_def extractKeyFromMinioUrl_def startsWith_def sample_platform_def
      sample_URL_def sample_urls)

lemma sample_client:
  "initializeMinio sample_platform = Some (S3Client ''us-east-1'' ''http://m.io:9000'' None)"
  by (simp add: initializeMinio_def sample_platform_def)

lemma sample_bucket: "bucketName sample_platform = ''q-hub''"
  by (simp add: bucketName_def sample_platform_def)

text \<open>
  C2, as amended. \<^verbatim>\<open>deleteFileFromMinio\<close> raises the user-id mismatch error, and sends nothing to
  the store, exactly when the requesting user's id does not occur in the decoded key: the
  test is \<^verbatim>\<open>key.includes(req.user.id)\<close> on the whole key, not a comparison with its owner
  segment. A missing or empty path raises the error of \<^verbatim>\<open>extractKeyFromMinioUrl\<close>, again with
  nothing sent. When the id occurs in the key and the client is initialised, the existence
  probe for the key is sent.
\<close>

theorem delete_refused_iff_user_id_not_in_key:
  "(case extractKeyFromMinioUrl P (filepath file) of
      Inl e \<Rightarrow> deleteFileFromMinio P V userId file (x, log) = (Inl e, (x, log))
    | Inr key \<Rightarrow>
        ((deleteFileFromMinio P V userId file (x, log)
            = (Inl (Error (mismatchMessage userId key)), (x, log)))
           = (\<not> js_includes key userId))
        \<and> (js_includes key userId \<and> initializeMinio P \<noteq> None \<longrightarrow>
             (\<exists>r x' rest. deleteFileFromMinio P V userId file (x, log)
                = (r, (x', log @ Sent (HeadObjectCommand (bucketName P) key) # rest)))))"
proof (cases "extractKeyFromMinioUrl P (filepath file)")
  case (Inl e)
  then show ?thesis by (simp add: deleteFileFromMinio_def)
next
  case (Inr key)
  have refused: "deleteFileFromMinio P V userId file (x, log)
      = (Inl (Error (mismatchMessage userId key)), (x, log))" if "\<not> js_includes key userId"
    using that Inr by (simp add: deleteFileFromMinio_def)
  have sent: "\<exists>r x' rest. deleteFileFromMinio P V userId file (x, log)
                = (r, (x', log @ Sent (HeadObjectCommand (bucketName P) key) # rest))"
    if inc: "js_includes key userId" and cl: "initializeMinio P \<noteq> None"
  proof -
    from cl obtain c where c: "initializeMinio P = Some c" by blast
    from deleteTry_probe_sent [OF c, of V key x log] obtain r x' rest where
      "deleteTry P V key (x, log) = (r, (x', log @ Sent (HeadObjectCommand (bucketName P) key) # rest))"
      by blast
    then show ?thesis
      using Inr inc by (auto simp add: deleteFileFromMinio_def split: sum.splits)
  qed
  have proceeds: "deleteFileFromMinio P V userId file (x, log)
      \<noteq> (Inl (Error (mismatchMessage userId key)), (x, log))" if inc: "js_includes key userId"
  proof (cases "initializeMinio P")
    case None
    then show ?thesis
      using Inr inc
      by (simp add: deleteFileFromMinio_def deleteTry_no_client TypeError_def Error_def)
  next
    case (Some c)
    with sent [OF inc] show ?thesis by auto
  qed
  show ?thesis
    using Inr refused sent proceeds by auto
qed

theorem delete_refused_witness:
  "\<not> js_includes ''images/u1/a.png'' ''u3''
   \<and> deleteFileFromMinio sample_platform sim ''u3'' stored_a (world0, [])
       = (Inl (Error (mismatchMessage ''u3'' ''images/u1/a.png'')), (world0, []))
   \<and> js_includes ''images/u1/a.png'' ''u1''
   \<and> (\<exists>r x' rest. deleteFileFromMinio sample_platform sim ''u1'' stored_a (world0, [])
          = (r, (x', Sent (HeadObjectCommand ''q-hub'' ''images/u1/a.png'') # rest)))"
proof -
  have n: "\<not> js_includes ''images/u1/a.png'' ''u3''"
    by (simp add: startsWith_def)
  have y: "js_includes ''images/u1/a.png'' ''u1''"
    by (simp add: startsWith_def)
  have c: "initializeMinio sample_platform \<noteq> None"
    by (simp add: sample_client)
  from delete_refused_iff_user_id_not_in_key [of sample_platform sim "''u3''" stored_a world0 "[]"] n
  have "deleteFileFromMinio sample_platform sim ''u3'' stored_a (world0, [])
       = (Inl (Error (mismatchMessage ''u3'' ''images/u1/a.png'')), (world0, []))"
    by (simp add: key_a)
  moreover
  have "js_includes ''images/u1/a.png'' ''u1'' \<and> initializeMinio sample_platform \<noteq> None \<longrightarrow>
      (\<exists>r x' rest. deleteFileFromMinio sample_platform sim ''u1'' stored_a (world0, [])
          = (r, (x', [] @ Sent (HeadObjectCommand (bucketName sample_platform) ''images/u1/a.png'')
                        # rest)))"
    using delete_refused_iff_user_id_not_in_key [of sample_platform sim "''u1''" stored_a world0 "[]"]
    unfolding key_a sum.case by (rule conjunct2)
  with y c
  have "\<exists>r x' rest. deleteFileFromMinio sample_platform sim ''u1'' stored_a (world0, [])
          = (r, (x', Sent (HeadObjectCommand ''q-hub'' ''images/u1/a.png'') # rest))"
    unfolding sample_bucket append_Nil by blast
  ultimately show ?thesis using n y by blast
qed

text \<open>
  The claim as stated fails for the user \<^verbatim>\<open>u1\<close> and the key \<^verbatim>\<open>images/u2/u1.png\<close>: the owner
  segment \<^verbatim>\<open>u2\<close> and the user's id are not contained in one another, yet the id occurs in
  the file name, no error is raised and the object is deleted.
\<close>

theorem delete_by_other_user_counterexample:
  "keyParts ''images/u2/u1.png'' = Some (''images'', ''u2'', ''u1.png'')
   \<and> \<not> js_includes ''u1'' ''u2'' \<and> \<not> js_includes ''u2'' ''u1''
   \<and> deleteFileFromMinio sample_platform sim ''u1'' stored_u2 (world0, [])
       = (Inr (), (world0\<lparr>objects := [''images/u1/a.png'']\<rparr>,
            [Sent (HeadObjectCommand ''q-hub'' ''images/u2/u1.png''),
             Sent (DeleteObjectCommand ''q-hub'' ''images/u2/u1.png''),
             Sent (HeadObjectCommand ''q-hub'' ''images/u2/u1.png'')]))"
  by (simp add: keyParts_def startsWith_def deleteFileFromMinio_def deleteTry_def
      deleteAndVerify_def client_send_def key_u2 sample_client sample_bucket
      sim_def sim_send_def world0_def)



section \<open>Upload of a local file\<close>

lemma sample_basename_tmp: "path_basename sample_platform ''/tmp/x'' = ''x''"
  by (simp add: sample_platform_def sample_basename_def)

lemma sample_upload_facts:
  "stat sim ''/tmp/x'' world_down = Inr 4096"
  "stat sim ''/tmp/x'' world_unsigned = Inr 4096"
  "stat sim ''/tmp/x'' world_protected = Inr 4096"
  "stat sim ''/tmp/x'' world0 = Inr 4096"
  "stat sim ''/tmp/x'' (world0\<lparr>tmp_files := []\<rparr>) = Inl ENOENT"
  "send sim c put_x world_down = (Inl networkError, world_down)"
  "send sim c put_x world_protected = (Inl networkError, world_protected)"
  "send sim c put_x world_unsigned
     = (Inr (), world_unsigned\<lparr>objects := ''images/u1/f1__x'' # objects world_unsigned\<rparr>)"
  "getSignedUrl sim (Some c) (GetObjectCommand ''q-hub'' ''images/u1/f1__x'') t
       (world_unsigned\<lparr>objects := ''images/u1/f1__x'' # objects world_unsigned\<rparr>)
     = (Inl signerError, world_unsigned\<lparr>objects := ''images/u1/f1__x'' # objects world_unsigned\<rparr>)"
  by (simp_all add: sim_def sim_stat_def sim_send_def sim_sign_def put_x_def world0_def
      world_down_def world_unsigned_def world_protected_def)

lemma sample_unlink_facts:
  "snd (unlink sim ''/tmp/x'' world_down) = world_down\<lparr>tmp_files := []\<rparr>"
  "snd (unlink sim ''/tmp/x'' world_protected) = world_protected"
  "snd (unlink sim ''/tmp/x'' (world0\<lparr>tmp_files := []\<rparr>)) = world0\<lparr>tmp_files := []\<rparr>"
  "snd (unlink sim ''/tmp/x'' (world_unsigned\<lparr>objects := ''images/u1/f1__x'' # objects world_unsigned\<rparr>))
     = world_unsigned\<lparr>objects := ''images/u1/f1__x'' # objects world_unsigned, tmp_files := []\<rparr>"
  by (simp_all add: sim_def sim_unlink_def world0_def world_down_def world_unsigned_def
      world_protected_def)

text \<open>
  C1, as amended. An upload of the local file at \<open>p\<close> ends in one of five ways. If
  \<^verbatim>\<open>stat\<close> fails, or the client is not initialised, nothing is sent; if the write fails, the
  command was sent; if the write succeeds and the signing of the URL fails, the object is
  in the store: in these four cases the call fails, with the error of the step that failed,
  after the clean-up, which for a non-empty path asks the file system once to unlink \<open>p\<close>
  and goes on with whatever world the unlink leaves, its error dropped. If the three steps
  succeed the call returns the signed URL with the size \<^verbatim>\<open>stat\<close> read before the write, and the
  file system was not asked to unlink anything.
\<close>

theorem upload_outcomes:
  assumes "file = Some f" and "p = path f"
    and "key = basePath @ ''/'' @ userId @ ''/'' @ fileId @ ''__'' @ path_basename P p"
    and "put = PutObjectCommand bucket key (ReadStream p)"
    and "cleanup = (\<lambda>(y, l). if p = [] then (y, l) else (snd (unlink V p y), l @ [Unlinked p]))"
  shows "(\<forall>e. stat V p x = Inl e \<longrightarrow>
            uploadFileToMinio P V userId file fileId bucket basePath (x, log)
              = (Inl e, cleanup (x, log)))
       \<and> (\<forall>n. stat V p x = Inr n \<and> initializeMinio P = None \<longrightarrow>
            (\<exists>e. uploadFileToMinio P V userId file fileId bucket basePath (x, log)
                   = (Inl e, cleanup (x, log))))
       \<and> (\<forall>n c e x1. stat V p x = Inr n \<and> initializeMinio P = Some c
              \<and> send V c put x = (Inl e, x1) \<longrightarrow>
            uploadFileToMinio P V userId file fileId bucket basePath (x, log)
              = (Inl e, cleanup (x1, log @ [Sent put])))
       \<and> (\<forall>n c x1 e x2. stat V p x = Inr n \<and> initializeMinio P = Some c
              \<and> send V c put x = (Inr (), x1)
              \<and> getSignedUrl V (Some c) (GetObjectCommand bucket key) (minioUrlExpirySeconds P) x1
                  = (Inl e, x2) \<longrightarrow>
            uploadFileToMinio P V userId file fileId bucket basePath (x, log)
              = (Inl e, cleanup (x2, log @ [Sent put])))
       \<and> (\<forall>n c x1 fileURL x2. stat V p x = Inr n \<and> initializeMinio P = Some c
              \<and> send V c put x = (Inr (), x1)
              \<and> getSignedUrl V (Some c) (GetObjectCommand bucket key) (minioUrlExpirySeconds P) x1
                  = (Inr fileURL, x2) \<longrightarrow>
            uploadFileToMinio P V userId file fileId bucket basePath (x, log)
              = (Inr \<lparr>res_filepath = fileURL, res_bytes = n\<rparr>, (x2, log @ [Sent put])))"
proof -
  have stat_fails: "uploadFileToMinio P V userId file fileId bucket basePath (x, log)
              = (Inl e, cleanup (x, log))" if "stat V p x = Inl e" for e
    using that assms
    by (simp add: uploadFileToMinio_def uploadTry_def Let_def split: prod.splits)
  have no_client: "\<exists>e. uploadFileToMinio P V userId file fileId bucket basePath (x, log)
              = (Inl e, cleanup (x, log))" if "stat V p x = Inr n" "initializeMinio P = None" for n
    using that assms
    by (simp add: uploadFileToMinio_def uploadTry_def client_send_def Let_def split: prod.splits)
  have write_fails: "uploadFileToMinio P V userId file fileId bucket basePath (x, log)
              = (Inl e, cleanup (x1, log @ [Sent put]))"
    if "stat V p x = Inr n" "initializeMinio P = Some c" "send V c put x = (Inl e, x1)" for n c e x1
    using that assms
    by (simp add: uploadFileToMinio_def uploadTry_def client_send_def getMinioKey_def Let_def
        split: prod.splits)
  have sign_fails: "uploadFileToMinio P V userId file fileId bucket basePath (x, log)
              = (Inl e, cleanup (x2, log @ [Sent put]))"
    if "stat V p x = Inr n" "initializeMinio P = Some c" "send V c put x = (Inr (), x1)"
      "getSignedUrl V (Some c) (GetObjectCommand bucket key) (minioUrlExpirySeconds P) x1 = (Inl e, x2)"
    for n c x1 e x2
    using that assms
    by (simp add: uploadFileToMinio_def uploadTry_def client_send_def getMinioURL_def
        getMinioKey_def Let_def split: prod.splits)
  have succeeds: "uploadFileToMinio P V userId file fileId bucket basePath (x, log)
              = (Inr \<lparr>res_filepath = fileURL, res_bytes = n\<rparr>, (x2, log @ [Sent put]))"
    if "stat V p x = Inr n" "initializeMinio P = Some c" "send V c put x = (Inr (), x1)"
      "getSignedUrl V (Some c) (GetObjectCommand bucket key) (minioUrlExpirySeconds P) x1
         = (Inr fileURL, x2)"
    for n c x1 fileURL x2
    using that assms
    by (simp add: uploadFileToMinio_def uploadTry_def client_send_def getMinioURL_def
        getMinioKey_def Let_def)
  show ?thesis
    using stat_fails no_client write_fails sign_fails succeeds by blast
qed

theorem upload_outcomes_witness:
  "uploadFileToMinio sample_platform sim ''u1'' (Some \<lparr>path = ''/tmp/x''\<rparr>) ''f1'' ''q-hub'' ''images''
     (world_down, [])
     = (Inl networkError, (world_down\<lparr>tmp_files := []\<rparr>, [Sent put_x, Unlinked ''/tmp/x'']))
   \<and> uploadFileToMinio sample_platform sim ''u1'' (Some \<lparr>path = ''/tmp/x''\<rparr>) ''f1'' ''q-hub'' ''images''
     (world_unsigned, [])
     = (Inl signerError,
        (world_unsigned\<lparr>objects := ''images/u1/f1__x'' # objects world_unsigned, tmp_files := []\<rparr>,
         [Sent put_x, Unlinked ''/tmp/x'']))
   \<and> uploadFileToMinio sample_platform sim ''u1'' (Some \<lparr>path = ''/tmp/x''\<rparr>) ''f1'' ''q-hub'' ''images''
     (world_protected, [])
     = (Inl networkError, (world_protected, [Sent put_x, Unlinked ''/tmp/x'']))
   \<and> uploadFileToMinio sample_platform sim ''u1'' (Some \<lparr>path = ''/tmp/x''\<rparr>) ''f1'' ''q-hub'' ''images''
     (world0\<lparr>tmp_files := []\<rparr>, [])
     = (Inl ENOENT, (world0\<lparr>tmp_files := []\<rparr>, [Unlinked ''/tmp/x'']))
   \<and> stat sim ''/tmp/x'' world_protected = Inr 4096
   \<and> stat sim ''/tmp/x'' (world_down\<lparr>tmp_files := []\<rparr>) = Inl ENOENT"
proof -
  let ?cleanup = "\<lambda>(y, l). if ''/tmp/x'' = [] then (y, l)
                    else (snd (unlink sim ''/tmp/x'' y), l @ [Unlinked ''/tmp/x''])"
  have k: "''images/u1/f1__x''
      = ''images'' @ ''/'' @ ''u1'' @ ''/'' @ ''f1'' @ ''__'' @ path_basename sample_platform ''/tmp/x''"
    by (simp add: sample_basename_tmp)
  have p: "''/tmp/x'' = path \<lparr>path = ''/tmp/x''\<rparr>"
    by simp
  note T = upload_outcomes [OF refl p k put_x_def refl, of sim]
  have "uploadFileToMinio sample_platform sim ''u1'' (Some \<lparr>path = ''/tmp/x''\<rparr>) ''f1'' ''q-hub''
          ''images'' (world_down, []) = (Inl networkError, ?cleanup (world_down, [] @ [Sent put_x]))"
    using T [of world_down "[]"] sample_upload_facts(1,6) sample_client by blast
  moreover
  have "uploadFileToMinio sample_platform sim ''u1'' (Some \<lparr>path = ''/tmp/x''\<rparr>) ''f1'' ''q-hub''
          ''images'' (world_protected, [])
        = (Inl networkError, ?cleanup (world_protected, [] @ [Sent put_x]))"
    using T [of world_protected "[]"] sample_upload_facts(3,7) sample_client by blast
  moreover
  have "uploadFileToMinio sample_platform sim ''u1'' (Some \<lparr>path = ''/tmp/x''\<rparr>) ''f1'' ''q-hub''
          ''images'' (world_unsigned, [])
        = (Inl signerError,
           ?cleanup (world_unsigned\<lparr>objects := ''images/u1/f1__x'' # objects world_unsigned\<rparr>,
                     [] @ [Sent put_x]))"
    using T [of world_unsigned "[]"] sample_upload_facts(2,8,9) sample_client by blast
  moreover
  have "uploadFileToMinio sample_platform sim ''u1'' (Some \<lparr>path = ''/tmp/x''\<rparr>) ''f1'' ''q-hub''
          ''images'' (world0\<lparr>tmp_files := []\<rparr>, [])
        = (Inl ENOENT, ?cleanup (world0\<lparr>tmp_files := []\<rparr>, []))"
    using T [of "world0\<lparr>tmp_files := []\<rparr>" "[]"] sample_upload_facts(5) by blast
  moreover have "stat sim ''/tmp/x'' (world_down\<lparr>tmp_files := []\<rparr>) = Inl ENOENT"
    by (simp add: sim_def sim_stat_def)
  ultimately show ?thesis
    by (simp add: sample_unlink_facts sample_upload_facts)
qed

text \<open>
  The claim as stated fails on the success path: the upload of the 4096 bytes of
  \<^verbatim>\<open>/tmp/x\<close> returns the size, and \<^verbatim>\<open>/tmp/x\<close> is still on the disk.
\<close>

theorem upload_keeps_file_counterexample:
  "uploadFileToMinio sample_platform sim ''u1'' (Some \<lparr>path = ''/tmp/x''\<rparr>) ''f1'' ''q-hub'' ''images''
     (world0, [])
     = (Inr \<lparr>res_filepath = ''https://m.io/images/u1/f1__x?X-Amz-Date=20240101T010140Z&X-Amz-Expires=604800&X-Amz-Signature=new'',
             res_bytes = 4096\<rparr>,
        (world0\<lparr>objects := ''images/u1/f1__x'' # objects world0\<rparr>, [Sent put_x]))
   \<and> stat sim ''/tmp/x'' (world0\<lparr>objects := ''images/u1/f1__x'' # objects world0\<rparr>) = Inr 4096"
  by (simp add: uploadFileToMinio_def uploadTry_def client_send_def getMinioURL_def
      sample_client getMinioKey_def sim_def sim_send_def sim_sign_def sim_stat_def world0_def
      sample_basename_tmp put_x_def Let_def)

section \<open>Refresh\<close>

lemma length_js_split: "length (js_split c s) = Suc (length (filter (\<lambda>x. x = c) s))"
  by (induction s) (auto split: list.splits simp: js_split_not_Nil)

lemma segments_separators: "length (js_split CHR ''/'' k) < 3 \<longleftrightarrow> separators k < 2"
  by (simp add: length_js_split separators_def)

lemma extractKey_keyOfPath:
  "fp \<noteq> [] \<Longrightarrow> extractKeyFromMinioUrl P (Some fp) = Inr (keyOfPath P fp)"
  by (simp add: extractKeyFromMinioUrl_def keyOfPath_def startsWith_def substringFrom_def Let_def
      split: option.splits)

lemma js_join_Cons: "rest \<noteq> [] \<Longrightarrow> js_join sep (p # rest) = p @ sep @ js_join sep rest"
  by (cases rest) simp_all

lemma keyParts_rejoin:
  assumes "keyParts k = Some (b, u, f)"
  shows "getMinioKey b u f = k"
proof -
  from assms have l: "\<not> length (js_split CHR ''/'' k) < 3"
    by (auto simp add: keyParts_def Let_def split: if_splits)
  then have "3 \<le> length (js_split CHR ''/'' k)"
    by simp
  then obtain p0 p1 p2 rest' where parts': "js_split CHR ''/'' k = p0 # p1 # p2 # rest'"
    by (auto simp add: numeral_3_eq_3 Suc_le_length_iff)
  define rest where "rest = p2 # rest'"
  with parts' have parts: "js_split CHR ''/'' k = p0 # p1 # rest" and ne: "rest \<noteq> []"
    by simp_all
  from assms parts have "b = p0" "u = p1" "f = js_join ''/'' rest"
    by (auto simp add: keyParts_def Let_def split: if_splits)
  then have "getMinioKey b u f = js_join ''/'' (js_split CHR ''/'' k)"
    using parts ne by (simp add: getMinioKey_def js_join_Cons)
  then show ?thesis
    using js_join_split [of "CHR ''/''" k] by simp
qed

lemma getNewMinioURL_reissued:
  assumes "fp \<noteq> []"
  shows "\<exists>r. getNewMinioURL P V (Some fp) (x, log) = (Inr r, (snd (reissued P V fp x), log))
             \<and> (if falsy r then None else r) = fst (reissued P V fp x)"
proof (cases "separators (keyOfPath P fp) < 2")
  case True
  then have "keyOfPath P fp = [] \<or> keyParts (keyOfPath P fp) = None"
    by (simp add: keyParts_None_iff segments_separators)
  then have "getNewMinioURL P V (Some fp) (x, log) = (Inr None, (x, log))"
    using assms by (auto simp add: getNewMinioURL_def getNewMinioURLTry_def extractKey_keyOfPath)
  with True show ?thesis
    by (simp add: reissued_def)
next
  case False
  then have ne: "keyOfPath P fp \<noteq> []"
    by (auto simp add: separators_def)
  from False obtain b u f where parts: "keyParts (keyOfPath P fp) = Some (b, u, f)"
    using keyParts_None_iff [of "keyOfPath P fp"] segments_separators [of "keyOfPath P fp"]
    by (cases "keyParts (keyOfPath P fp)") auto
  then have key: "getMinioKey b u f = keyOfPath P fp"
    by (rule keyParts_rejoin)
  obtain sr x1 where sg: "getSignedUrl V (initializeMinio P)
        (GetObjectCommand (bucketName P) (keyOfPath P fp)) (minioUrlExpirySeconds P) x = (sr, x1)"
    by (cases "getSignedUrl V (initializeMinio P)
        (GetObjectCommand (bucketName P) (keyOfPath P fp)) (minioUrlExpirySeconds P) x")
  show ?thesis
  proof (cases sr)
    case (Inl e)
    with False ne parts key sg assms show ?thesis
      by (simp add: getNewMinioURL_def getNewMinioURLTry_def extractKey_keyOfPath getMinioURL_def
          reissued_def)
  next
    case (Inr newURL)
    with False ne parts key sg assms show ?thesis
      by (simp add: getNewMinioURL_def getNewMinioURLTry_def extractKey_keyOfPath getMinioURL_def
          reissued_def)
  qed
qed

lemma refreshMinioUrlTry_signer:
  assumes "fp \<noteq> []"
  shows "refreshMinioUrlTry P V fp (x, log) =
     (if separators (keyOfPath P fp) < 2 then (Inr fp, (x, log))
      else (case getSignedUrl V (initializeMinio P)
                   (GetObjectCommand (bucketName P) (keyOfPath P fp)) (minioUrlExpirySeconds P) x of
              (r, x1) \<Rightarrow> (r, (x1, log))))"
proof (cases "separators (keyOfPath P fp) < 2")
  case True
  then have "keyOfPath P fp = [] \<or> keyParts (keyOfPath P fp) = None"
    by (simp add: keyParts_None_iff segments_separators)
  with True assms show ?thesis
    by (auto simp add: refreshMinioUrlTry_def extractKey_keyOfPath)
next
  case False
  then have ne: "keyOfPath P fp \<noteq> []"
    by (auto simp add: separators_def)
  from False obtain b u f where parts: "keyParts (keyOfPath P fp) = Some (b, u, f)"
    using keyParts_None_iff [of "keyOfPath P fp"] segments_separators [of "keyOfPath P fp"]
    by (cases "keyParts (keyOfPath P fp)") auto
  then have "getMinioKey b u f = keyOfPath P fp"
    by (rule keyParts_rejoin)
  with False ne parts assms show ?thesis
    by (simp add: refreshMinioUrlTry_def extractKey_keyOfPath getMinioURL_def)
qed

lemma sample_tag: "FileSources_client sample_platform = ''client''"
  by (simp add: sample_platform_def)

lemma sample_no_override: "minioRefreshExpiryMs sample_platform = None"
  by (simp add: minioRefreshExpiryMs_def sample_platform_def)

lemma sample_URL_new:
  "new_URL sample_platform newUrl_a =
     Some \<lparr>pathname = ''/images/u1/a.png'',
           searchParams = [(''X-Amz-Date'', ''20240101T010140Z''), (''X-Amz-Expires'', ''604800''),
                           (''X-Amz-Signature'', ''new'')]\<rparr>"
  by (simp add: sample_platform_def sample_URL_def sample_urls)

lemma stale_at_world0: "needsRefresh sample_platform (getTime sim world0) staleUrl 0"
  by (simp add: needsRefresh_def sample_URL_stale searchParams_has_def searchParams_get_def
      sample_date_midnight sample_no_override sim_def world0_def maxTime_def Let_def)
     (simp add: sample_platform_def sample_parseInt_def maxTime_def)

lemma stale_at_world_unsigned: "needsRefresh sample_platform (getTime sim world_unsigned) staleUrl 0"
  using stale_at_world0 by (simp add: sim_def world_unsigned_def world0_def)

lemma fresh_at_world0: "\<not> needsRefresh sample_platform (getTime sim world0) freshUrl 0"
  by (simp add: needsRefresh_def searchParams_has_def searchParams_get_def
      sample_no_override sim_def world0_def maxTime_def Let_def amzDateIso_def substring_def
      sample_platform_def sample_URL_def sample_urls sample_dateParse_def sample_parseInt_def
      minioRefreshExpiryMs_def)

lemma new_fresh_at_world0: "\<not> needsRefresh sample_platform (getTime sim world0) newUrl_a 0"
  by (simp add: needsRefresh_def sample_URL_new searchParams_has_def searchParams_get_def
      sample_no_override sim_def world0_def Let_def amzDateIso_def substring_def)
     (simp add: sample_platform_def sample_dateParse_def sample_parseInt_def maxTime_def)

lemma short_stale: "needsRefresh sample_platform t ''a/b'' 0"
  by (simp add: needsRefresh_def sample_platform_def sample_URL_def sample_urls)

lemma sample_keys:
  "keyOfPath sample_platform staleUrl = ''images/u1/a.png''"
  "keyOfPath sample_platform ''a/b'' = ''a/b''"
  by (simp_all add: keyOfPath_def sample_URL_stale)
     (simp add: sample_platform_def sample_URL_def sample_urls)

lemma sample_sign:
  "getSignedUrl sim (initializeMinio sample_platform)
     (GetObjectCommand (bucketName sample_platform) ''images/u1/a.png'') t world0
   = (Inr newUrl_a, world0)"
  "getSignedUrl sim (initializeMinio sample_platform)
     (GetObjectCommand (bucketName sample_platform) ''images/u1/a.png'') t world_unsigned
   = (Inl signerError, world_unsigned)"
  by (simp_all add: sample_client sample_bucket sim_def sim_sign_def newUrl_a_def world0_def
      world_unsigned_def)

lemma sample_urls_not_empty: "newUrl_a \<noteq> []" "staleUrl \<noteq> []" "freshUrl \<noteq> []"
  by (simp_all add: newUrl_a_def staleUrl_def freshUrl_def)

lemma refreshTurn_meets_spec:
  "\<exists>d h' x'. refreshTurn P V bufferSeconds r (h, (x, log))
                 = (updates_of [d], (h', (x', log)))
             \<and> turn_spec P V bufferSeconds r (h, x) d (h', x')"
proof (cases r)
  case None
  then have "refreshTurn P V bufferSeconds r (h, (x, log)) = (updates_of [None], (h, (x, log)))"
    "turn_spec P V bufferSeconds r (h, x) None (h, x)"
    by (simp_all add: refreshTurn_def turn_spec_def updates_of_def)
  then show ?thesis by blast
next
  case (Some a)
  show ?thesis
  proof (cases "\<exists>i fp. file_id (h a) = Some i \<and> filepath (h a) = Some fp \<and> i \<noteq> [] \<and> fp \<noteq> []
      \<and> source (h a) = Some (FileSources_client P)
      \<and> needsRefresh P (getTime V x) fp bufferSeconds")
    case False
    then have "refreshTurn P V bufferSeconds r (h, (x, log)) = (updates_of [None], (h, (x, log)))"
      using Some
      by (cases "file_id (h a)"; cases "filepath (h a)")
         (auto simp add: refreshTurn_def updates_of_def Let_def)
    moreover have "turn_spec P V bufferSeconds r (h, x) None (h, x)"
      using Some False
      by (cases "file_id (h a)"; cases "filepath (h a)") (auto simp add: turn_spec_def)
    ultimately show ?thesis by blast
  next
    case True
    then obtain i fp where f: "file_id (h a) = Some i" "filepath (h a) = Some fp" "i \<noteq> []"
        "fp \<noteq> []" "source (h a) = Some (FileSources_client P)"
        "needsRefresh P (getTime V x) fp bufferSeconds"
      by blast
    from getNewMinioURL_reissued [OF f(4), of P V x log]
    obtain nr where g: "getNewMinioURL P V (Some fp) (x, log)
          = (Inr nr, (snd (reissued P V fp x), log))"
      and n: "(if falsy nr then None else nr) = fst (reissued P V fp x)"
      by blast
    obtain d x1 where re: "reissued P V fp x = (d, x1)"
      by (cases "reissued P V fp x")
    show ?thesis
    proof (cases d)
      case None
      with re n have "falsy nr" by (auto split: if_splits)
      with Some f g re have "refreshTurn P V bufferSeconds r (h, (x, log))
          = (updates_of [None], (h, (x1, log)))"
        by (simp add: refreshTurn_def updates_of_def Let_def)
      moreover have "turn_spec P V bufferSeconds r (h, x) None (h, x1)"
        using Some f re None by (simp add: turn_spec_def)
      ultimately show ?thesis by blast
    next
      case (Some newURL)
      with re n have nr: "nr = Some newURL" "\<not> falsy nr" by (auto split: if_splits)
      with \<open>r = Some a\<close> f g re have "refreshTurn P V bufferSeconds r (h, (x, log))
          = (updates_of [Some \<lparr>upd_file_id = i, upd_filepath = newURL\<rparr>],
             (h(a := (h a)\<lparr>filepath := Some newURL\<rparr>), (x1, log)))"
        by (simp add: refreshTurn_def updates_of_def Let_def)
      moreover have "turn_spec P V bufferSeconds r (h, x)
          (Some \<lparr>upd_file_id = i, upd_filepath = newURL\<rparr>)
          (h(a := (h a)\<lparr>filepath := Some newURL\<rparr>), x1)"
        using \<open>r = Some a\<close> f re Some by (simp add: turn_spec_def)
      ultimately show ?thesis by blast
    qed
  qed
qed

lemma updates_of_Cons: "updates_of (d # ds) = updates_of [d] @ updates_of ds"
  by (simp add: updates_of_def)

lemma refreshLoop_meets_spec:
  "\<exists>ss ds. length ss = Suc (length files) \<and> length ds = length files \<and> ss ! 0 = (h, x)
       \<and> (\<forall>i < length files.
             turn_spec P V bufferSeconds (files ! i) (ss ! i) (ds ! i) (ss ! Suc i))
       \<and> refreshLoop P V bufferSeconds files (h, (x, log))
           = (updates_of ds, (fst (ss ! length files), (snd (ss ! length files), log)))"
proof (induction files arbitrary: h x)
  case Nil
  have "length [(h, x)] = Suc (length ([] :: nat option list))
      \<and> length ([] :: file_update option list) = length ([] :: nat option list)
      \<and> [(h, x)] ! 0 = (h, x)
      \<and> refreshLoop P V bufferSeconds [] (h, (x, log))
           = (updates_of [], (fst ([(h, x)] ! 0), (snd ([(h, x)] ! 0), log)))"
    by (simp add: updates_of_def)
  then show ?case by (intro exI [of _ "[(h, x)]"] exI [of _ "[]"]) simp
next
  case (Cons r rs)
  from refreshTurn_meets_spec [of P V bufferSeconds r h x log]
  obtain d h1 x1 where t: "refreshTurn P V bufferSeconds r (h, (x, log))
                 = (updates_of [d], (h1, (x1, log)))"
    and sp: "turn_spec P V bufferSeconds r (h, x) d (h1, x1)"
    by blast
  from Cons.IH [of h1 x1] obtain ss ds where
    len: "length ss = Suc (length rs)" "length ds = length rs" and first: "ss ! 0 = (h1, x1)"
    and turns: "\<forall>i < length rs. turn_spec P V bufferSeconds (rs ! i) (ss ! i) (ds ! i) (ss ! Suc i)"
    and loop: "refreshLoop P V bufferSeconds rs (h1, (x1, log))
           = (updates_of ds, (fst (ss ! length rs), (snd (ss ! length rs), log)))"
    by blast
  let ?ss = "(h, x) # ss" and ?ds = "d # ds"
  have "\<forall>i < length (r # rs).
      turn_spec P V bufferSeconds ((r # rs) ! i) (?ss ! i) (?ds ! i) (?ss ! Suc i)"
  proof (intro allI impI)
    fix i assume "i < length (r # rs)"
    then show "turn_spec P V bufferSeconds ((r # rs) ! i) (?ss ! i) (?ds ! i) (?ss ! Suc i)"
      using sp first turns by (cases i) simp_all
  qed
  moreover have "refreshLoop P V bufferSeconds (r # rs) (h, (x, log))
      = (updates_of ?ds, (fst (?ss ! length (r # rs)), (snd (?ss ! length (r # rs)), log)))"
    using t loop by (simp add: updates_of_Cons [of d ds])
  moreover have "length ?ss = Suc (length (r # rs))" "length ?ds = length (r # rs)" "?ss ! 0 = (h, x)"
    using len by simp_all
  ultimately show ?case by blast
qed

lemma sample_persist: "sim_persist us w = (Inr (), w)"
  by (simp add: sim_persist_def)

lemma sample_reissued: "reissued sample_platform sim staleUrl world0 = (Some newUrl_a, world0)"
  by (simp add: reissued_def sample_keys separators_def sample_sign sample_urls_not_empty)

lemma turn_stale:
  assumes "h a = rec_a"
  shows "turn_spec sample_platform sim 0 (Some a) (h, world0) d s
     \<longleftrightarrow> d = Some upd_a \<and> s = (h(a := rec_a\<lparr>filepath := Some newUrl_a\<rparr>), world0)"
  using assms
  by (simp add: turn_spec_def rec_a_def sample_tag sample_urls_not_empty stale_at_world0
      sample_reissued upd_a_def)

lemma turn_fresh:
  assumes "h a = rec_b"
  shows "turn_spec sample_platform sim 0 (Some a) (h, world0) d s \<longleftrightarrow> d = None \<and> s = (h, world0)"
  using assms
  by (simp add: turn_spec_def rec_b_def sample_tag sample_urls_not_empty fresh_at_world0)

lemma turn_other:
  assumes "h a = rec_c"
  shows "turn_spec sample_platform sim 0 (Some a) (h, world0) d s \<longleftrightarrow> d = None \<and> s = (h, world0)"
  using assms
  by (simp add: turn_spec_def rec_c_def sample_tag)

lemma turn_refreshed:
  assumes "h a = rec_a\<lparr>filepath := Some newUrl_a\<rparr>"
  shows "turn_spec sample_platform sim 0 (Some a) (h, world0) d s \<longleftrightarrow> d = None \<and> s = (h, world0)"
  using assms
  by (simp add: turn_spec_def rec_a_def sample_tag sample_urls_not_empty new_fresh_at_world0)

lemma turn_null:
  "turn_spec sample_platform sim 0 None (h, world0) d s \<longleftrightarrow> d = None \<and> s = (h, world0)"
  by (simp add: turn_spec_def)

lemma heap0_at: "heap0 0 = rec_a" "heap0 1 = rec_b" "heap0 2 = rec_c"
  "(heap0(0 := r)) 0 = r" "(heap0(0 := r)) 1 = rec_b" "(heap0(0 := r)) 2 = rec_c"
  by (simp_all add: heap0_def)

lemma list_of_length_3:
  "length ss = Suc (Suc (Suc 0)) \<Longrightarrow> ss = [ss ! 0, ss ! 1, ss ! 2]"
  by (auto simp add: length_Suc_conv)

lemma list_of_length_2:
  "length ss = Suc (Suc 0) \<Longrightarrow> ss = [ss ! 0, ss ! 1]"
  by (auto simp add: length_Suc_conv)

text \<open>
  C9. \<^verbatim>\<open>refreshMinioUrl\<close> returns a string on every record, every buffer and every world. For
  no record it returns the empty string. For a record without this backend's tag, or
  without a path, it returns the path it has (the empty string for none) and asks nothing
  of the signer. For a tagged record with a path: when the path is fresh at the reading of
  the clock, or its key has fewer than three segments, it returns the path; otherwise it
  asks the signer for a URL of the key, and returns the path when the signer throws, the
  new URL when the signer gives one.
\<close>

theorem refreshOne_outcomes:
  "(\<exists>r s'. refreshMinioUrl P V fileObj bufferSeconds (x, log) = (Inr r, s'))
   \<and> (fileObj = None \<longrightarrow> refreshMinioUrl P V fileObj bufferSeconds (x, log) = (Inr [], (x, log)))
   \<and> (\<forall>f. fileObj = Some f
          \<and> (source f \<noteq> Some (FileSources_client P) \<or> filepath f = None \<or> filepath f = Some [])
        \<longrightarrow> refreshMinioUrl P V fileObj bufferSeconds (x, log)
              = (Inr (case filepath f of None \<Rightarrow> [] | Some fp \<Rightarrow> fp), (x, log)))
   \<and> (\<forall>f fp. fileObj = Some f \<and> source f = Some (FileSources_client P)
          \<and> filepath f = Some fp \<and> fp \<noteq> []
        \<longrightarrow> (if \<not> needsRefresh P (getTime V x) fp bufferSeconds \<or> separators (keyOfPath P fp) < 2
             then refreshMinioUrl P V fileObj bufferSeconds (x, log) = (Inr fp, (x, log))
             else (case getSignedUrl V (initializeMinio P)
                          (GetObjectCommand (bucketName P) (keyOfPath P fp))
                          (minioUrlExpirySeconds P) x of
                     (Inl e, x1) \<Rightarrow>
                       refreshMinioUrl P V fileObj bufferSeconds (x, log) = (Inr fp, (x1, log))
                   | (Inr newUrl, x1) \<Rightarrow>
                       refreshMinioUrl P V fileObj bufferSeconds (x, log) = (Inr newUrl, (x1, log)))))"
proof -
  have returns: "\<exists>r s'. refreshMinioUrl P V fileObj bufferSeconds (x, log) = (Inr r, s')"
    by (auto simp add: refreshMinioUrl_def split: option.splits prod.splits sum.splits)
  have missing: "fileObj = None \<longrightarrow>
      refreshMinioUrl P V fileObj bufferSeconds (x, log) = (Inr [], (x, log))"
    by (simp add: refreshMinioUrl_def filepathOrEmpty_def)
  have skipped: "refreshMinioUrl P V fileObj bufferSeconds (x, log)
              = (Inr (case filepath f of None \<Rightarrow> [] | Some fp \<Rightarrow> fp), (x, log))"
    if "fileObj = Some f"
      "source f \<noteq> Some (FileSources_client P) \<or> filepath f = None \<or> filepath f = Some []" for f
    using that
    by (cases "filepath f") (auto simp add: refreshMinioUrl_def filepathOrEmpty_def)
  have looked: "if \<not> needsRefresh P (getTime V x) fp bufferSeconds \<or> separators (keyOfPath P fp) < 2
             then refreshMinioUrl P V fileObj bufferSeconds (x, log) = (Inr fp, (x, log))
             else (case getSignedUrl V (initializeMinio P)
                          (GetObjectCommand (bucketName P) (keyOfPath P fp))
                          (minioUrlExpirySeconds P) x of
                     (Inl e, x1) \<Rightarrow>
                       refreshMinioUrl P V fileObj bufferSeconds (x, log) = (Inr fp, (x1, log))
                   | (Inr newUrl, x1) \<Rightarrow>
                       refreshMinioUrl P V fileObj bufferSeconds (x, log) = (Inr newUrl, (x1, log)))"
    if f: "fileObj = Some f" "source f = Some (FileSources_client P)" "filepath f = Some fp"
      "fp \<noteq> []" for f fp
  proof (cases "needsRefresh P (getTime V x) fp bufferSeconds")
    case False
    with f show ?thesis
      by (simp add: refreshMinioUrl_def)
  next
    case True
    obtain sr x1 where sg: "getSignedUrl V (initializeMinio P)
        (GetObjectCommand (bucketName P) (keyOfPath P fp)) (minioUrlExpirySeconds P) x = (sr, x1)"
      by (cases "getSignedUrl V (initializeMinio P)
        (GetObjectCommand (bucketName P) (keyOfPath P fp)) (minioUrlExpirySeconds P) x")
    show ?thesis
      using f True sg refreshMinioUrlTry_signer [OF f(4), of P V x log]
      by (cases sr) (simp_all add: refreshMinioUrl_def)
  qed
  show ?thesis
    using returns missing skipped looked by blast
qed

theorem refreshOne_witness:
  "refreshMinioUrl sample_platform sim (Some rec_a) 0 (world0, []) = (Inr newUrl_a, (world0, []))
   \<and> refreshMinioUrl sample_platform sim (Some rec_a) 0 (world_unsigned, [])
       = (Inr staleUrl, (world_unsigned, []))
   \<and> refreshMinioUrl sample_platform sim (Some rec_short) 0 (world0, []) = (Inr ''a/b'', (world0, []))
   \<and> refreshMinioUrl sample_platform sim (Some rec_c) 0 (world0, []) = (Inr staleUrl, (world0, []))
   \<and> refreshMinioUrl sample_platform sim None 0 (world0, []) = (Inr [], (world0, []))"
proof -
  have a: "refreshMinioUrl sample_platform sim (Some rec_a) 0 (world0, [])
      = (Inr newUrl_a, (world0, []))"
    using refreshOne_outcomes [of sample_platform sim "Some rec_a" 0 world0 "[]"]
    by (elim conjE allE [of _ rec_a] allE [of _ staleUrl])
       (simp add: rec_a_def sample_tag sample_urls_not_empty stale_at_world0 sample_keys
          separators_def sample_sign)
  have b: "refreshMinioUrl sample_platform sim (Some rec_a) 0 (world_unsigned, [])
      = (Inr staleUrl, (world_unsigned, []))"
    using refreshOne_outcomes [of sample_platform sim "Some rec_a" 0 world_unsigned "[]"]
    by (elim conjE allE [of _ rec_a] allE [of _ staleUrl])
       (simp add: rec_a_def sample_tag sample_urls_not_empty stale_at_world_unsigned sample_keys
          separators_def sample_sign)
  have c: "refreshMinioUrl sample_platform sim (Some rec_short) 0 (world0, [])
      = (Inr ''a/b'', (world0, []))"
    using refreshOne_outcomes [of sample_platform sim "Some rec_short" 0 world0 "[]"]
    by (elim conjE allE [of _ rec_short] allE [of _ "''a/b''"])
       (simp add: rec_short_def sample_tag short_stale sample_keys separators_def)
  have d: "refreshMinioUrl sample_platform sim (Some rec_c) 0 (world0, [])
      = (Inr staleUrl, (world0, []))"
    using refreshOne_outcomes [of sample_platform sim "Some rec_c" 0 world0 "[]"]
    by (elim conjE allE [of _ rec_c] allE [of _ staleUrl])
       (simp add: rec_c_def sample_tag)
  have e: "refreshMinioUrl sample_platform sim None 0 (world0, []) = (Inr [], (world0, []))"
    using refreshOne_outcomes [of sample_platform sim None 0 world0 "[]"]
    by simp
  from a b c d e show ?thesis by simp
qed

text \<open>
  C6. A pass of \<^verbatim>\<open>refreshMinioFileUrls\<close> over an array goes through the heaps and worlds
  \<open>ss\<close>, one turn for each element, each turn as the specification has it: it contributes
  an update, and writes the new URL into the record, exactly for a record with an id and a
  path, tagged with this backend, stale at that turn's reading of the clock, whose reissue
  gave a URL; otherwise the heap is the same. With no update the callback is not called;
  with one or more it is called once, after the last turn, on the updates in the order of
  the array, and the call returns the array it was given, or fails with the callback's
  error.
\<close>

theorem refreshMany_pass:
  "\<exists>ss ds. length ss = Suc (length files) \<and> length ds = length files \<and> ss ! 0 = (h, x)
       \<and> (\<forall>i < length files.
             turn_spec P V bufferSeconds (files ! i) (ss ! i) (ds ! i) (ss ! Suc i))
       \<and> refreshMinioFileUrls P V files batchUpdateFiles bufferSeconds (h, (x, log))
           = (if updates_of ds = []
              then (Inr files, (fst (ss ! length files), (snd (ss ! length files), log)))
              else (case batchUpdateFiles (updates_of ds) (snd (ss ! length files)) of
                      (Inl e, x') \<Rightarrow>
                        (Inl e, (fst (ss ! length files),
                                 (x', log @ [Persisted (updates_of ds)])))
                    | (Inr updated, x') \<Rightarrow>
                        (Inr files, (fst (ss ! length files),
                                     (x', log @ [Persisted (updates_of ds)])))))"
proof -
  from refreshLoop_meets_spec [of files h x P V bufferSeconds log]
  obtain ss ds where
    len: "length ss = Suc (length files)" "length ds = length files" and first: "ss ! 0 = (h, x)"
    and turns: "\<forall>i < length files.
        turn_spec P V bufferSeconds (files ! i) (ss ! i) (ds ! i) (ss ! Suc i)"
    and loop: "refreshLoop P V bufferSeconds files (h, (x, log))
           = (updates_of ds, (fst (ss ! length files), (snd (ss ! length files), log)))"
    by blast
  have "refreshMinioFileUrls P V files batchUpdateFiles bufferSeconds (h, (x, log))
           = (if updates_of ds = []
              then (Inr files, (fst (ss ! length files), (snd (ss ! length files), log)))
              else (case batchUpdateFiles (updates_of ds) (snd (ss ! length files)) of
                      (Inl e, x') \<Rightarrow>
                        (Inl e, (fst (ss ! length files),
                                 (x', log @ [Persisted (updates_of ds)])))
                    | (Inr updated, x') \<Rightarrow>
                        (Inr files, (fst (ss ! length files),
                                     (x', log @ [Persisted (updates_of ds)])))))"
  proof (cases "files = []")
    case True
    with len first show ?thesis
      by (simp add: refreshMinioFileUrls_def updates_of_def)
  next
    case False
    with loop show ?thesis
      by (simp add: refreshMinioFileUrls_def split: prod.splits sum.splits)
  qed
  with len first turns show ?thesis by blast
qed

theorem refreshMany_pass_witness:
  "refreshMinioFileUrls sample_platform sim [Some 0, Some 1, Some 2] sim_persist 0
       (heap0, (world0, []))
     = (Inr [Some 0, Some 1, Some 2],
        (heap0(0 := rec_a\<lparr>filepath := Some newUrl_a\<rparr>), (world0, [Persisted [upd_a]])))
   \<and> refreshMinioFileUrls sample_platform sim [Some 0, None, Some 0] sim_persist 0
       (heap0, (world0, []))
     = (Inr [Some 0, None, Some 0],
        (heap0(0 := rec_a\<lparr>filepath := Some newUrl_a\<rparr>), (world0, [Persisted [upd_a]])))
   \<and> refreshMinioFileUrls sample_platform sim [Some 1, Some 2] sim_persist 0
       (heap0, (world0, []))
     = (Inr [Some 1, Some 2], (heap0, (world0, [])))"
proof -
  let ?h1 = "heap0(0 := rec_a\<lparr>filepath := Some newUrl_a\<rparr>)"
  let ?abc = "[Some 0, Some 1, Some 2] :: nat option list"
  let ?aa = "[Some 0, None, Some 0] :: nat option list"
  let ?bc = "[Some 1, Some 2] :: nat option list"
  have a: "refreshMinioFileUrls sample_platform sim ?abc sim_persist 0 (heap0, (world0, []))
     = (Inr ?abc, (?h1, (world0, [Persisted [upd_a]])))"
    using refreshMany_pass [of ?abc heap0 world0 sample_platform sim 0 sim_persist "[]"]
  proof (elim exE conjE)
    fix ss ds
    assume len: "length ds = length ?abc"
      and first: "ss ! 0 = (heap0, world0)"
      and turns: "\<forall>i < length ?abc.
          turn_spec sample_platform sim 0 (?abc ! i) (ss ! i) (ds ! i) (ss ! Suc i)"
      and res: "refreshMinioFileUrls sample_platform sim ?abc sim_persist 0 (heap0, (world0, []))
        = (if updates_of ds = []
           then (Inr ?abc, (fst (ss ! length ?abc), (snd (ss ! length ?abc), [])))
           else (case sim_persist (updates_of ds) (snd (ss ! length ?abc)) of
                   (Inl e, x') \<Rightarrow>
                     (Inl e, (fst (ss ! length ?abc), (x', [] @ [Persisted (updates_of ds)])))
                 | (Inr updated, x') \<Rightarrow>
                     (Inr ?abc, (fst (ss ! length ?abc), (x', [] @ [Persisted (updates_of ds)])))))"
    have "turn_spec sample_platform sim 0 (?abc ! 0) (ss ! 0) (ds ! 0) (ss ! 1)"
      using turns [rule_format, of 0] by simp
    with first have "turn_spec sample_platform sim 0 (?abc ! 0) (heap0, world0) (ds ! 0) (ss ! 1)"
      by simp
    then have "turn_spec sample_platform sim 0 (Some 0) (heap0, world0) (ds ! 0) (ss ! 1)"
      by simp
    then have t0: "ds ! 0 = Some upd_a" "ss ! 1 = (?h1, world0)"
      unfolding turn_stale [of heap0 0, OF heap0_at(1)] by simp_all
    have "turn_spec sample_platform sim 0 (?abc ! 1) (ss ! 1) (ds ! 1) (ss ! 2)"
      using turns [rule_format, of 1] by (simp add: numeral_2_eq_2)
    with t0 have "turn_spec sample_platform sim 0 (?abc ! 1) (?h1, world0) (ds ! 1) (ss ! 2)"
      by simp
    then have "turn_spec sample_platform sim 0 (Some 1) (?h1, world0) (ds ! 1) (ss ! 2)"
      by simp
    then have t1: "ds ! 1 = None" "ss ! 2 = (?h1, world0)"
      unfolding turn_fresh [of ?h1 1, OF heap0_at(5)] by simp_all
    have "turn_spec sample_platform sim 0 (?abc ! 2) (ss ! 2) (ds ! 2) (ss ! 3)"
      using turns [rule_format, of 2] by (simp add: numeral_3_eq_3)
    with t1 have "turn_spec sample_platform sim 0 (?abc ! 2) (?h1, world0) (ds ! 2) (ss ! 3)"
      by simp
    then have "turn_spec sample_platform sim 0 (Some 2) (?h1, world0) (ds ! 2) (ss ! 3)"
      by simp
    then have t2: "ds ! 2 = None" "ss ! 3 = (?h1, world0)"
      unfolding turn_other [of ?h1 2, OF heap0_at(6)] by simp_all
    from len have "ds = [ds ! 0, ds ! 1, ds ! 2]"
      by (intro list_of_length_3) simp
    with t0 t1 t2 have u: "updates_of ds = [upd_a]"
      by (simp add: updates_of_def)
    have l: "length ?abc = 3" by simp
    show ?thesis
      unfolding res l u t2 sample_persist by simp
  qed
  have b: "refreshMinioFileUrls sample_platform sim ?aa sim_persist 0 (heap0, (world0, []))
     = (Inr ?aa, (?h1, (world0, [Persisted [upd_a]])))"
    using refreshMany_pass [of ?aa heap0 world0 sample_platform sim 0 sim_persist "[]"]
  proof (elim exE conjE)
    fix ss ds
    assume len: "length ds = length ?aa"
      and first: "ss ! 0 = (heap0, world0)"
      and turns: "\<forall>i < length ?aa.
          turn_spec sample_platform sim 0 (?aa ! i) (ss ! i) (ds ! i) (ss ! Suc i)"
      and res: "refreshMinioFileUrls sample_platform sim ?aa sim_persist 0 (heap0, (world0, []))
        = (if updates_of ds = []
           then (Inr ?aa, (fst (ss ! length ?aa), (snd (ss ! length ?aa), [])))
           else (case sim_persist (updates_of ds) (snd (ss ! length ?aa)) of
                   (Inl e, x') \<Rightarrow>
                     (Inl e, (fst (ss ! length ?aa), (x', [] @ [Persisted (updates_of ds)])))
                 | (Inr updated, x') \<Rightarrow>
                     (Inr ?aa, (fst (ss ! length ?aa), (x', [] @ [Persisted (updates_of ds)])))))"
    have "turn_spec sample_platform sim 0 (?aa ! 0) (ss ! 0) (ds ! 0) (ss ! 1)"
      using turns [rule_format, of 0] by simp
    with first have "turn_spec sample_platform sim 0 (?aa ! 0) (heap0, world0) (ds ! 0) (ss ! 1)"
      by simp
    then have "turn_spec sample_platform sim 0 (Some 0) (heap0, world0) (ds ! 0) (ss ! 1)"
      by simp
    then have t0: "ds ! 0 = Some upd_a" "ss ! 1 = (?h1, world0)"
      unfolding turn_stale [of heap0 0, OF heap0_at(1)] by simp_all
    have "turn_spec sample_platform sim 0 (?aa ! 1) (ss ! 1) (ds ! 1) (ss ! 2)"
      using turns [rule_format, of 1] by (simp add: numeral_2_eq_2)
    with t0 have "turn_spec sample_platform sim 0 (?aa ! 1) (?h1, world0) (ds ! 1) (ss ! 2)"
      by simp
    then have "turn_spec sample_platform sim 0 None (?h1, world0) (ds ! 1) (ss ! 2)"
      by simp
    then have t1: "ds ! 1 = None" "ss ! 2 = (?h1, world0)"
      unfolding turn_null by simp_all
    have "turn_spec sample_platform sim 0 (?aa ! 2) (ss ! 2) (ds ! 2) (ss ! 3)"
      using turns [rule_format, of 2] by (simp add: numeral_3_eq_3)
    with t1 have "turn_spec sample_platform sim 0 (?aa ! 2) (?h1, world0) (ds ! 2) (ss ! 3)"
      by simp
    then have "turn_spec sample_platform sim 0 (Some 0) (?h1, world0) (ds ! 2) (ss ! 3)"
      by simp
    then have t2: "ds ! 2 = None" "ss ! 3 = (?h1, world0)"
      unfolding turn_refreshed [of ?h1 0, OF heap0_at(4)] by simp_all
    from len have "ds = [ds ! 0, ds ! 1, ds ! 2]"
      by (intro list_of_length_3) simp
    with t0 t1 t2 have u: "updates_of ds = [upd_a]"
      by (simp add: updates_of_def)
    have l: "length ?aa = 3" by simp
    show ?thesis
      unfolding res l u t2 sample_persist by simp
  qed
  have c: "refreshMinioFileUrls sample_platform sim ?bc sim_persist 0 (heap0, (world0, []))
     = (Inr ?bc, (heap0, (world0, [])))"
    using refreshMany_pass [of ?bc heap0 world0 sample_platform sim 0 sim_persist "[]"]
  proof (elim exE conjE)
    fix ss ds
    assume len: "length ds = length ?bc"
      and first: "ss ! 0 = (heap0, world0)"
      and turns: "\<forall>i < length ?bc.
          turn_spec sample_platform sim 0 (?bc ! i) (ss ! i) (ds ! i) (ss ! Suc i)"
      and res: "refreshMinioFileUrls sample_platform sim ?bc sim_persist 0 (heap0, (world0, []))
        = (if updates_of ds = []
           then (Inr ?bc, (fst (ss ! length ?bc), (snd (ss ! length ?bc), [])))
           else (case sim_persist (updates_of ds) (snd (ss ! length ?bc)) of
                   (Inl e, x') \<Rightarrow>
                     (Inl e, (fst (ss ! length ?bc), (x', [] @ [Persisted (updates_of ds)])))
                 | (Inr updated, x') \<Rightarrow>
                     (Inr ?bc, (fst (ss ! length ?bc), (x', [] @ [Persisted (updates_of ds)])))))"
    have "turn_spec sample_platform sim 0 (?bc ! 0) (ss ! 0) (ds ! 0) (ss ! 1)"
      using turns [rule_format, of 0] by simp
    with first have "turn_spec sample_platform sim 0 (?bc ! 0) (heap0, world0) (ds ! 0) (ss ! 1)"
      by simp
    then have "turn_spec sample_platform sim 0 (Some 1) (heap0, world0) (ds ! 0) (ss ! 1)"
      by simp
    then have t0: "ds ! 0 = None" "ss ! 1 = (heap0, world0)"
      unfolding turn_fresh [of heap0 1, OF heap0_at(2)] by simp_all
    have "turn_spec sample_platform sim 0 (?bc ! 1) (ss ! 1) (ds ! 1) (ss ! 2)"
      using turns [rule_format, of 1] by (simp add: numeral_2_eq_2)
    with t0 have "turn_spec sample_platform sim 0 (?bc ! 1) (heap0, world0) (ds ! 1) (ss ! 2)"
      by simp
    then have "turn_spec sample_platform sim 0 (Some 2) (heap0, world0) (ds ! 1) (ss ! 2)"
      by simp
    then have t1: "ds ! 1 = None" "ss ! 2 = (heap0, world0)"
      unfolding turn_other [of heap0 2, OF heap0_at(3)] by simp_all
    from len have "ds = [ds ! 0, ds ! 1]"
      by (intro list_of_length_2) simp
    with t0 t1 have u: "updates_of ds = []"
      by (simp add: updates_of_def)
    have l: "length ?bc = 2" by simp
    show ?thesis
      unfolding res l u t1 by simp
  qed
  from a b c show ?thesis by simp
qed

end
